theory Spec2Isabelle
  imports Complex_Main
begin

section \<open>Strings of the client script\<close>

text \<open>
  The client script works on JavaScript strings. A string is modelled as a list of
  code units; the model covers the code units below 256, which is where every
  character the script tests for (digits, separators, white space) lives.
\<close>

definition is_digit :: "char \<Rightarrow> bool" where
  "is_digit c = (c \<in> set ''0123456789'')"

text \<open>
  White space as \<^verbatim>\<open>trim()\<close> and the regular expression class \<^verbatim>\<open>\s\<close> see it:
  tab, line feed, vertical tab, form feed, carriage return, space and the no-break
  space U+00A0.
\<close>

definition is_space :: "char \<Rightarrow> bool" where
  "is_space c = (of_char c \<in> {9, 10, 11, 12, 13, 32, 160 :: nat})"

text \<open>The class \<^verbatim>\<open>\w\<close>: letters, digits and the underscore.\<close>

definition is_word :: "char \<Rightarrow> bool" where
  "is_word c =
     (let n = (of_char c :: nat)
      in (65 \<le> n \<and> n \<le> 90) \<or> (97 \<le> n \<and> n \<le> 122) \<or> (48 \<le> n \<and> n \<le> 57) \<or> n = 95)"

definition trim :: "string \<Rightarrow> string" where
  "trim s = rev (dropWhile is_space (rev (dropWhile is_space s)))"

text \<open>\<^verbatim>\<open>s.replace(a, b)\<close> with a one-character string \<open>a\<close>: the first occurrence only.\<close>

fun replace_first :: "char \<Rightarrow> char \<Rightarrow> string \<Rightarrow> string" where
  "replace_first a b [] = []"
| "replace_first a b (c # cs) = (if c = a then b # cs else c # replace_first a b cs)"

text \<open>\<^verbatim>\<open>s.split(sep)[1] ?? ''\<close>: the text between the first and the second separator.\<close>

definition split_second :: "char \<Rightarrow> string \<Rightarrow> string" where
  "split_second sep s =
     (case dropWhile (\<lambda>c. c \<noteq> sep) s of
        [] \<Rightarrow> []
      | _ # rest \<Rightarrow> takeWhile (\<lambda>c. c \<noteq> sep) rest)"

text \<open>\<^verbatim>\<open>s.startsWith(p)\<close>, \<^verbatim>\<open>s.endsWith(p)\<close> and \<^verbatim>\<open>s.includes(p)\<close>.\<close>

fun starts_with :: "string \<Rightarrow> string \<Rightarrow> bool" where
  "starts_with s [] = True"
| "starts_with [] (p # ps) = False"
| "starts_with (c # cs) (p # ps) = (c = p \<and> starts_with cs ps)"

definition ends_with :: "string \<Rightarrow> string \<Rightarrow> bool" where
  "ends_with s p = starts_with (rev s) (rev p)"

fun str_includes :: "string \<Rightarrow> string \<Rightarrow> bool" where
  "str_includes [] p = (p = [])"
| "str_includes (c # cs) p = (starts_with (c # cs) p \<or> str_includes cs p)"

text \<open>Decimal digits of a natural number, and the number a run of digits denotes.\<close>

fun digits_of_nat :: "nat \<Rightarrow> string" where
  "digits_of_nat n =
     (if n < 10 then [''0123456789'' ! n]
      else digits_of_nat (n div 10) @ [''0123456789'' ! (n mod 10)])"

declare digits_of_nat.simps [simp del]

definition digit_value :: "char \<Rightarrow> nat" where
  "digit_value c = of_char c - 48"

definition nat_of_digits :: "string \<Rightarrow> nat" where
  "nat_of_digits ds = foldl (\<lambda>acc c. 10 * acc + digit_value c) 0 ds"

subsection \<open>Dash-grouped digit mask\<close>

text \<open>
  \<^verbatim>\<open>
  function string_format_pattern(value) {
      const digits = value.replace(/[^0-9]/g, '');
      let formatted = '';
      for (let i = 0; i < digits.length && i < 8; i++) {
          if (i > 0 && i % 2 === 0) { formatted += '-'; }
          formatted += digits[i];
      }
      return formatted;
  }
  \<close>
  The loop is the recursive function \<open>string_format_loop\<close> over the counter \<open>i\<close>
  and the accumulator \<open>formatted\<close>.
\<close>

function string_format_loop :: "string \<Rightarrow> nat \<Rightarrow> string \<Rightarrow> string" where
  "string_format_loop digits i formatted =
     (if i < length digits \<and> i < 8
      then string_format_loop digits (i + 1)
             ((if 0 < i \<and> i mod 2 = 0 then formatted @ ''-'' else formatted) @ [digits ! i])
      else formatted)"
  by pat_completeness auto
termination
  by (relation "measure (\<lambda>(digits, i, formatted). 8 - i)") auto

definition string_format_pattern :: "string \<Rightarrow> string" where
  "string_format_pattern v = string_format_loop (filter is_digit v) 0 ''''"

text \<open>
  The shape the mask is meant to produce, written independently of the loop: the digits
  taken two at a time, a single dash between consecutive groups, the last group of one
  digit when the number of digits is odd.
\<close>

fun dash_pairs :: "string \<Rightarrow> string" where
  "dash_pairs [] = []"
| "dash_pairs [a] = [a]"
| "dash_pairs [a, b] = [a, b]"
| "dash_pairs (a # b # c # rest) = a # b # CHR ''-'' # dash_pairs (c # rest)"

text \<open>The text the loop appends from position \<open>i\<close> on, used to reason about it.\<close>

fun format_from :: "nat \<Rightarrow> string \<Rightarrow> string" where
  "format_from i [] = []"
| "format_from i (d # ds) =
     (if 0 < i \<and> i mod 2 = 0 then ''-'' else '''') @ d # format_from (i + 1) ds"

section \<open>Numbers of the client script\<close>

text \<open>
  A JavaScript number is a double. The model keeps the exact value of a finite number
  as a rational, with the negative zero, the two infinities and NaN beside it. Every
  number that the script makes from a text goes through \<open>nearest_double\<close>, which rounds
  the exact value of the literal to the double the script gets. Comparison, \<^verbatim>\<open>Math.round\<close>
  and \<^verbatim>\<open>toFixed\<close> are exact functions of the value of a double, and the conversion of
  an integer to a string prints the shortest digits that identify the double.
\<close>

datatype number = Num rat | Neg_zero | Pos_infinity | Neg_infinity | NaN

datatype js_error = RangeError

text \<open>The mathematical value of a finite number.\<close>

fun finite_value :: "number \<Rightarrow> rat option" where
  "finite_value (Num q) = Some q"
| "finite_value Neg_zero = Some 0"
| "finite_value _ = None"

text \<open>The comparison \<^verbatim>\<open>a < b\<close> of two numbers; false when either is NaN.\<close>

fun number_less :: "number \<Rightarrow> number \<Rightarrow> bool" where
  "number_less NaN b = False"
| "number_less a NaN = False"
| "number_less Pos_infinity b = False"
| "number_less a Neg_infinity = False"
| "number_less Neg_infinity b = True"
| "number_less a Pos_infinity = True"
| "number_less a b = (the (finite_value a) < the (finite_value b))"

definition is_nan :: "number \<Rightarrow> bool" where
  "is_nan x = (x = NaN)"

subsection \<open>Rounding to a double\<close>

text \<open>
  A double has a significand of 53 bits and a unit in the last place of at least
  \<open>2^-1074\<close>. The nearest double of a value \<open>v\<close> is found at the exponent \<open>p\<close> of the
  last place of the doubles around \<open>|v|\<close>: the multiple of \<open>2^p\<close> nearest to \<open>|v|\<close>, the
  even multiple on a tie. A result of \<open>2^1024\<close> is beyond the largest double and stands
  for an infinity; a result of zero keeps the sign.
\<close>

fun bit_length :: "nat \<Rightarrow> nat" where
  "bit_length n = (if n = 0 then 0 else Suc (bit_length (n div 2)))"

declare bit_length.simps [simp del]

text \<open>The integer \<open>e\<close> with \<open>2^e \<le> v < 2^(e+1)\<close>, for a positive \<open>v\<close>.\<close>

definition floor_log2 :: "rat \<Rightarrow> int" where
  "floor_log2 v =
     (if 1 \<le> v then int (bit_length (nat \<lfloor>v\<rfloor>)) - 1
      else - int (bit_length (nat (\<lceil>1 / v\<rceil> - 1))))"

definition round_half_even :: "rat \<Rightarrow> int" where
  "round_half_even x =
     (let n = \<lfloor>x\<rfloor>; r = x - of_int n
      in if r < 1 / 2 then n else if 1 / 2 < r then n + 1 else if even n then n else n + 1)"

text \<open>\<open>scale2 x k\<close> is \<open>x * 2^k\<close>.\<close>

definition scale2 :: "rat \<Rightarrow> int \<Rightarrow> rat" where
  "scale2 x k = (if 0 \<le> k then x * 2 ^ nat k else x / 2 ^ nat (- k))"

definition nearest_double :: "rat \<Rightarrow> number" where
  "nearest_double v =
     (if v = 0 then Num 0
      else
        (let a = \<bar>v\<bar>;
             p = max (floor_log2 a - 52) (- 1074);
             m = round_half_even (scale2 a (- p));
             r = scale2 (of_int m) p
         in if 2 ^ 1024 \<le> r then (if v < 0 then Neg_infinity else Pos_infinity)
            else if m = 0 then (if v < 0 then Neg_zero else Num 0)
            else Num (if v < 0 then - r else r)))"

subsection \<open>Reading a number: \<^verbatim>\<open>parseFloat\<close>\<close>

text \<open>
  \<^verbatim>\<open>parseFloat\<close> skips leading white space and reads the longest prefix that is a
  decimal literal: an optional sign, then \<^verbatim>\<open>Infinity\<close> or digits with an optional
  fraction and an optional exponent. No such prefix gives NaN. The result is the
  double nearest to the value of the literal.
\<close>

definition exponent_part :: "string \<Rightarrow> int" where
  "exponent_part s =
     (case s of
        [] \<Rightarrow> 0
      | e # r \<Rightarrow>
          if e = CHR ''e'' \<or> e = CHR ''E'' then
            (let neg = (r \<noteq> [] \<and> hd r = CHR ''-'');
                 r' = (if r \<noteq> [] \<and> (hd r = CHR ''-'' \<or> hd r = CHR ''+'') then tl r else r);
                 ds = takeWhile is_digit r'
             in if ds = [] then 0
                else if neg then - int (nat_of_digits ds) else int (nat_of_digits ds))
          else 0)"

definition parseFloat :: "string \<Rightarrow> number" where
  "parseFloat s =
     (let t = dropWhile is_space s;
          neg = (t \<noteq> [] \<and> hd t = CHR ''-'');
          u = (if t \<noteq> [] \<and> (hd t = CHR ''-'' \<or> hd t = CHR ''+'') then tl t else t)
      in if starts_with u ''Infinity'' then (if neg then Neg_infinity else Pos_infinity)
         else
           (let ip = takeWhile is_digit u;
                r1 = dropWhile is_digit u;
                has_point = (r1 \<noteq> [] \<and> hd r1 = CHR ''.'');
                fp = (if has_point then takeWhile is_digit (tl r1) else []);
                r2 = (if has_point then dropWhile is_digit (tl r1) else r1)
            in if ip = [] \<and> fp = [] then NaN
               else
                 (let m = of_nat (nat_of_digits ip)
                          + of_nat (nat_of_digits fp) / 10 ^ length fp;
                      v = m * 10 powi exponent_part r2 :: rat
                  in if neg then (if v = 0 then Neg_zero else nearest_double (- v))
                     else nearest_double v)))"

subsection \<open>Writing a number: \<^verbatim>\<open>toString\<close>, \<^verbatim>\<open>Math.round\<close>, \<^verbatim>\<open>toFixed\<close>\<close>

text \<open>
  \<^verbatim>\<open>Number.prototype.toString\<close> at an integer value prints the decimal number of
  fewest significant digits that rounds to the double, the nearest to the value when
  there are several and the one with an even last digit when two are equally near.
  Below \<open>2^53\<close> every integer is a double of its own and that number is the value
  itself. \<open>candidates v j\<close> are the two multiples of \<open>10^j\<close> around \<open>v\<close>, the preferred
  one first.
\<close>

definition candidates :: "nat \<Rightarrow> nat \<Rightarrow> nat list" where
  "candidates v j =
     (let s = 10 ^ j; d = v div s; lo = d * s; hi = lo + s
      in if v - lo < hi - v \<or> (v - lo = hi - v \<and> even d) then [lo, hi] else [hi, lo])"

definition shortest_decimal :: "nat \<Rightarrow> nat" where
  "shortest_decimal v =
     (if v < 2 ^ 53 then v
      else
        (case find (\<lambda>c. nearest_double (of_nat c) = Num (of_nat v))
                (concat (map (candidates v) (rev [0..<length (digits_of_nat v)]))) of
           None \<Rightarrow> v
         | Some c \<Rightarrow> c))"

text \<open>
  The digits are written out below \<open>10^21\<close>; from there on the exponent notation is
  used.
\<close>

definition strip_trailing_zeros :: "string \<Rightarrow> string" where
  "strip_trailing_zeros ds = rev (dropWhile (\<lambda>c. c = CHR ''0'') (rev ds))"

definition nat_to_string :: "nat \<Rightarrow> string" where
  "nat_to_string n =
     (if n < 10 ^ 21 then digits_of_nat (shortest_decimal n)
      else
        (let ds = digits_of_nat (shortest_decimal n); s = strip_trailing_zeros ds
         in (if length s = 1 then s else hd s # CHR ''.'' # tl s)
            @ ''e+'' @ digits_of_nat (length ds - 1)))"

definition int_to_string :: "int \<Rightarrow> string" where
  "int_to_string i = (if i < 0 then ''-'' else '''') @ nat_to_string (nat \<bar>i\<bar>)"

text \<open>
  \<^verbatim>\<open>Math.round(value).toString()\<close>. \<^verbatim>\<open>Math.round\<close> rounds to the nearest integer,
  a tie towards \<open>+\<infinity>\<close>; a result of negative zero prints as \<^verbatim>\<open>0\<close>.
\<close>

fun round_to_string :: "number \<Rightarrow> string" where
  "round_to_string NaN = ''NaN''"
| "round_to_string Pos_infinity = ''Infinity''"
| "round_to_string Neg_infinity = ''-Infinity''"
| "round_to_string Neg_zero = ''0''"
| "round_to_string (Num q) = int_to_string \<lfloor>q + 1 / 2\<rfloor>"

text \<open>
  \<^verbatim>\<open>value.toFixed(f)\<close>: a RangeError when \<open>f\<close> exceeds 100; the name of a number
  that is not finite; otherwise the sign of the mathematical value (negative zero
  has none), then the integer \<open>n\<close> nearest to \<open>|x| * 10^f\<close> (the larger one on a
  tie) written with at least \<open>f + 1\<close> digits and a point before the last \<open>f\<close>.
\<close>

definition fixed_digits :: "rat \<Rightarrow> nat \<Rightarrow> string" where
  "fixed_digits x f =
     (if 10 ^ 21 \<le> x then nat_to_string (nat \<lfloor>x\<rfloor>)
      else
        (let n = nat \<lfloor>x * 10 ^ f + 1 / 2\<rfloor>;
             m = digits_of_nat n
         in if f = 0 then m
            else
              (let m' = (if length m \<le> f then replicate (f + 1 - length m) CHR ''0'' @ m else m);
                   k = length m'
               in take (k - f) m' @ ''.'' @ drop (k - f) m')))"

fun toFixed :: "number \<Rightarrow> nat \<Rightarrow> js_error + string" where
  "toFixed x f =
     (if 100 < f then Inl RangeError
      else
        (case x of
           NaN \<Rightarrow> Inr ''NaN''
         | Pos_infinity \<Rightarrow> Inr ''Infinity''
         | Neg_infinity \<Rightarrow> Inr ''-Infinity''
         | Neg_zero \<Rightarrow> Inr (fixed_digits 0 f)
         | Num q \<Rightarrow> Inr ((if q < 0 then ''-'' else '''') @ fixed_digits \<bar>q\<bar> f)))"

subsection \<open>The format codec\<close>

record number_format =
  has_spaces :: bool
  decimals :: nat

text \<open>
  \<^verbatim>\<open>
  function number_format_parse(format) {
      const has_spaces = format.includes(' ');
      let decimal_part = '';
      if (format.includes('.')) { decimal_part = format.split('.')[1] ?? ''; }
      else if (format.includes(',')) { decimal_part = format.split(',')[1] ?? ''; }
      return { has_spaces, decimals: decimal_part.length };
  }
  \<close>
\<close>

definition number_format_parse :: "string \<Rightarrow> number_format" where
  "number_format_parse format =
     (let decimal_part =
            (if CHR ''.'' \<in> set format then split_second CHR ''.'' format
             else if CHR '','' \<in> set format then split_second CHR '','' format
             else '''')
      in \<lparr>has_spaces = (CHR '' '' \<in> set format), decimals = length decimal_part\<rparr>)"

text \<open>
  \<^verbatim>\<open>abs_int.replace(/\B(?=(\d{3})+(?!\d))/g, ' ')\<close>: a space goes in front of every
  position that follows a word character and is followed by a run of digits whose
  length is a positive multiple of three. \<open>prev\<close> is the character before the position.
\<close>

fun group_thousands :: "char option \<Rightarrow> string \<Rightarrow> string" where
  "group_thousands prev [] = []"
| "group_thousands prev (c # cs) =
     (let run = length (takeWhile is_digit (c # cs))
      in (if (case prev of None \<Rightarrow> False | Some p \<Rightarrow> is_word p) \<and> 0 < run \<and> run mod 3 = 0
          then '' '' else '''')
         @ c # group_thousands (Some c) cs)"

text \<open>
  \<^verbatim>\<open>
  function number_format_value(value, fmt) {
      let result = fmt.decimals === 0
          ? Math.round(value).toString()
          : value.toFixed(fmt.decimals);
      result = result.replace('.', ',');
      if (fmt.has_spaces) {
          const parts = result.split(',');
          const int_part = parts[0] ?? '';
          const dec_part = parts[1];
          const is_negative = int_part.startsWith('-');
          const abs_int = is_negative ? int_part.substring(1) : int_part;
          const spaced = abs_int.replace(/\B(?=(\d{3})+(?!\d))/g, ' ');
          result = (is_negative ? '-' : '') + spaced + (dec_part ? ',' + dec_part : '');
      }
      return result;
  }
  \<close>
\<close>

definition number_format_value :: "number \<Rightarrow> number_format \<Rightarrow> js_error + string" where
  "number_format_value v fmt =
     (case (if decimals fmt = 0 then Inr (round_to_string v) else toFixed v (decimals fmt)) of
        Inl e \<Rightarrow> Inl e
      | Inr r0 \<Rightarrow>
          (let result = replace_first CHR ''.'' CHR '','' r0
           in if has_spaces fmt then
                (let int_part = takeWhile (\<lambda>c. c \<noteq> CHR '','') result;
                     dec_part = split_second CHR '','' result;
                     is_negative = starts_with int_part ''-'';
                     abs_int = (if is_negative then tl int_part else int_part);
                     spaced = group_thousands None abs_int
                 in Inr ((if is_negative then ''-'' else '''') @ spaced
                         @ (if dec_part \<noteq> [] then '','' @ dec_part else '''')))
              else Inr result))"

text \<open>
  \<^verbatim>\<open>
  function number_value_parse(value) {
      const raw = value.replace(/\s/g, '').replace(',', '.');
      if (raw === '' || raw === '-' || raw === '.') return null;
      const num = parseFloat(raw);
      return isNaN(num) ? null : num;
  }
  \<close>
\<close>

definition number_value_parse :: "string \<Rightarrow> number option" where
  "number_value_parse v =
     (let raw = replace_first CHR '','' CHR ''.'' (filter (\<lambda>c. \<not> is_space c) v)
      in if raw = '''' \<or> raw = ''-'' \<or> raw = ''.'' then None
         else (let num = parseFloat raw in if is_nan num then None else Some num))"

text \<open>
  \<^verbatim>\<open>
  function string_is_blank(value) { return value.replace(/[\s,.\-]/g, '') === ''; }
  \<close>
\<close>

definition string_is_blank :: "string \<Rightarrow> bool" where
  "string_is_blank v =
     (filter (\<lambda>c. \<not> (is_space c \<or> c = CHR '','' \<or> c = CHR ''.'' \<or> c = CHR ''-'')) v = '''')"

section \<open>The grid markup\<close>

text \<open>
  The markup templates are not among the sources; the model of the grid follows the
  structure the script's selectors address. An input element carries its name, its
  value, the \<^verbatim>\<open>readonly\<close> attribute, the \<^verbatim>\<open>data-*\<close> attributes the script reads
  and, as the script writes them, the error marker (\<^verbatim>\<open>data-error-message\<close>,
  \<^verbatim>\<open>data-error-type\<close>, the red or orange border classes) and the green classes of
  the success display.

  The text of a message is a constructor of \<open>message\<close>, one for each string of the
  script; \<open>Custom\<close> is a text that the markup supplies. Where the script is quoted,
  long lines are abridged and Polish letters are written without their diacritics.
\<close>

datatype error_type = Error | Warning

datatype message =
    Custom string
  | Msg_required
  | Msg_bad_number
  | Msg_at_least string
  | Msg_at_most string
  | Msg_bad_pattern
  | Msg_choose_value
  | Msg_choose_option

record input_el =
  in_name :: string
  in_value :: string
  in_readonly :: bool
  data_required :: "string option"
  data_format :: "string option"
  data_min :: "string option"
  data_max :: "string option"
  data_error_message :: "message option"
  data_error_type :: "error_type option"
  error_classes :: "error_type option"
  success_classes :: bool

text \<open>
  An enum container (\<^verbatim>\<open>[data-enum-container]\<close>) holds a visible text input
  (\<^verbatim>\<open>[data-enum-input]\<close>) and a hidden input with the committed value
  (\<^verbatim>\<open>[data-enum-value]\<close>); a multi-exclusive container holds the hidden input with
  the comma-joined value (\<^verbatim>\<open>[data-multi-exclusive-value]\<close>). Either part may be
  missing, as \<^verbatim>\<open>querySelector\<close> may return null.
\<close>

record enum_container =
  enum_input :: "input_el option"
  enum_value :: "input_el option"

record multi_container =
  multi_value :: "input_el option"

text \<open>
  A cell (\<^verbatim>\<open>[data-cell]\<close>) carries \<^verbatim>\<open>data-row-index\<close> and \<^verbatim>\<open>data-row-code\<close>, its
  inputs by kind in document order, and the error popup when one is shown. The row
  index is written by the server from an integer and by the client from its counter;
  it is modelled as the number it denotes.
\<close>

record cell =
  row_index :: "nat option"
  row_code :: "string option"
  number_inputs :: "input_el list"
  string_inputs :: "input_el list"
  enum_containers :: "enum_container list"
  multi_containers :: "multi_container list"
  error_popup :: bool

text \<open>JavaScript truthiness of a string, and of a message used as a string.\<close>

definition truthy :: "string \<Rightarrow> bool" where
  "truthy s = (s \<noteq> '''')"

definition message_truthy :: "message \<Rightarrow> bool" where
  "message_truthy m = (m \<noteq> Custom '''')"

definition is_required :: "input_el \<Rightarrow> bool" where
  "is_required i = (data_required i = Some ''true'')"

subsection \<open>Error display\<close>

text \<open>
  \<^verbatim>\<open>
  function input_show_error(input, message, type = 'error') {
      input_clear_error(input);
      input.dataset.errorMessage = message;
      input.dataset.errorType = type;
      input.classList.remove('border-gray-200', 'focus:border-indigo-500');
      if (type === 'error') { input.classList.add('border-red-300', ...); }
      else { input.classList.add('border-orange-300', ...); }
  }
  function input_clear_error(input) {
      delete input.dataset.errorMessage;
      delete input.dataset.errorType;
      const wrapper = input.closest('[data-cell]');
      wrapper?.querySelector('.input-error-popup')?.remove();
      input.classList.remove('border-red-300', ..., 'border-orange-300', ...);
      input.classList.add('border-gray-200', 'focus:border-indigo-500');
  }
  \<close>
  Both remove the popup of the enclosing cell; that part is in \<open>touch_popup\<close>, applied
  by the functions that work on a cell.
\<close>

definition input_clear_error :: "input_el \<Rightarrow> input_el" where
  "input_clear_error i =
     i\<lparr>data_error_message := None, data_error_type := None, error_classes := None\<rparr>"

definition input_show_error :: "input_el \<Rightarrow> message \<Rightarrow> error_type \<Rightarrow> input_el" where
  "input_show_error i m t =
     (input_clear_error i)\<lparr>data_error_message := Some m, data_error_type := Some t,
                             error_classes := Some t\<rparr>"


text \<open>Every \<^verbatim>\<open>input\<close> element of a cell that the model holds.\<close>

definition enum_inputs_of :: "enum_container \<Rightarrow> input_el list" where
  "enum_inputs_of c = (case enum_input c of None \<Rightarrow> [] | Some i \<Rightarrow> [i])
                      @ (case enum_value c of None \<Rightarrow> [] | Some i \<Rightarrow> [i])"

definition multi_inputs_of :: "multi_container \<Rightarrow> input_el list" where
  "multi_inputs_of c = (case multi_value c of None \<Rightarrow> [] | Some i \<Rightarrow> [i])"

definition cell_inputs :: "cell \<Rightarrow> input_el list" where
  "cell_inputs c =
     number_inputs c @ string_inputs c @ concat (map enum_inputs_of (enum_containers c))
     @ concat (map multi_inputs_of (multi_containers c))"

text \<open>
  \<^verbatim>\<open>
  function row_cells_clear_errors(cells) {
      cells.forEach(cell => {
          cell.querySelectorAll('input').forEach(input => { input_clear_error(input); });
      });
  }
  \<close>
\<close>

definition cell_clear_errors :: "cell \<Rightarrow> cell" where
  "cell_clear_errors c =
     c\<lparr>number_inputs := map input_clear_error (number_inputs c),
       string_inputs := map input_clear_error (string_inputs c),
       enum_containers :=
         map (\<lambda>e. e\<lparr>enum_input := map_option input_clear_error (enum_input e),
                      enum_value := map_option input_clear_error (enum_value e)\<rparr>)
           (enum_containers c),
       multi_containers :=
         map (\<lambda>m. m\<lparr>multi_value := map_option input_clear_error (multi_value m)\<rparr>)
           (multi_containers c),
       error_popup := (error_popup c \<and> cell_inputs c = [])\<rparr>"

definition row_cells_clear_errors :: "cell list \<Rightarrow> cell list" where
  "row_cells_clear_errors cells = map cell_clear_errors cells"

subsection \<open>Whether a row holds data\<close>

text \<open>
  \<^verbatim>\<open>
  function row_cells_has_data(cells) {
      for (const cell of cells) {
          const numberInputs = cell.querySelectorAll('.number-input:not([readonly])');
          for (const input of numberInputs) { if (input.value.trim() !== '') return true; }
          const stringInputs = cell.querySelectorAll('.string-input:not([readonly])');
          for (const input of stringInputs) { if (input.value.trim() !== '') return true; }
          const enumInputs = cell.querySelectorAll('[data-enum-value]');
          for (const input of enumInputs) {
              const container = input.closest('[data-enum-container]');
              const visibleInput = container?.querySelector('[data-enum-input]');
              if (visibleInput?.hasAttribute('readonly')) continue;
              if (input.value.trim() !== '') return true;
          }
          const multiExclusiveInputs = cell.querySelectorAll('[data-multi-exclusive-value]');
          for (const input of multiExclusiveInputs) { if (input.value.trim() !== '') return true; }
      }
      return false;
  }
  \<close>
\<close>

definition visible_readonly :: "enum_container \<Rightarrow> bool" where
  "visible_readonly e = (case enum_input e of None \<Rightarrow> False | Some i \<Rightarrow> in_readonly i)"

fun inputs_have_data :: "input_el list \<Rightarrow> bool" where
  "inputs_have_data [] = False"
| "inputs_have_data (i # is) =
     (if \<not> in_readonly i \<and> trim (in_value i) \<noteq> '''' then True else inputs_have_data is)"

fun enums_have_data :: "enum_container list \<Rightarrow> bool" where
  "enums_have_data [] = False"
| "enums_have_data (e # es) =
     (case enum_value e of
        None \<Rightarrow> enums_have_data es
      | Some h \<Rightarrow>
          if visible_readonly e then enums_have_data es
          else if trim (in_value h) \<noteq> '''' then True
          else enums_have_data es)"

fun multis_have_data :: "multi_container list \<Rightarrow> bool" where
  "multis_have_data [] = False"
| "multis_have_data (m # ms) =
     (case multi_value m of
        None \<Rightarrow> multis_have_data ms
      | Some h \<Rightarrow> if trim (in_value h) \<noteq> '''' then True else multis_have_data ms)"

fun row_cells_has_data :: "cell list \<Rightarrow> bool" where
  "row_cells_has_data [] = False"
| "row_cells_has_data (c # cs) =
     (if inputs_have_data (number_inputs c) then True
      else if inputs_have_data (string_inputs c) then True
      else if enums_have_data (enum_containers c) then True
      else if multis_have_data (multi_containers c) then True
      else row_cells_has_data cs)"

subsection \<open>Field validation\<close>

text \<open>
  \<^verbatim>\<open>
  function validate_number_value(input) {
      const raw = input.value.trim();
      if (string_is_blank(raw)) return null;
      const value = number_value_parse(raw);
      const min = input.dataset.min ? parseFloat(input.dataset.min) : null;
      const max = input.dataset.max ? parseFloat(input.dataset.max) : null;
      const fmt = number_format_parse(input.dataset.format || '###0');
      if (value === null) { return 'Nieprawidlowy format liczby'; }
      if (min !== null && value < min) { return `... co najmniej ${number_format_value(min, fmt)}`; }
      if (max !== null && value > max) { return `... co najwyzej ${number_format_value(max, fmt)}`; }
      return null;
  }
  \<close>
  A result \<open>Inl e\<close> is the exception that rendering the bound throws.
\<close>

definition dataset_bound :: "string option \<Rightarrow> number option" where
  "dataset_bound a = (case a of None \<Rightarrow> None | Some s \<Rightarrow> if truthy s then Some (parseFloat s) else None)"

definition dataset_format :: "input_el \<Rightarrow> string" where
  "dataset_format i = (case data_format i of None \<Rightarrow> ''###0'' | Some f \<Rightarrow> if truthy f then f else ''###0'')"

definition validate_number_value :: "input_el \<Rightarrow> js_error + message option" where
  "validate_number_value i =
     (let raw = trim (in_value i)
      in if string_is_blank raw then Inr None
         else
           (let v = number_value_parse raw;
                mn = dataset_bound (data_min i);
                mx = dataset_bound (data_max i);
                fmt = number_format_parse (dataset_format i)
            in case v of
                 None \<Rightarrow> Inr (Some Msg_bad_number)
               | Some x \<Rightarrow>
                   if mn \<noteq> None \<and> number_less x (the mn) then
                     (case number_format_value (the mn) fmt of
                        Inl e \<Rightarrow> Inl e | Inr s \<Rightarrow> Inr (Some (Msg_at_least s)))
                   else if mx \<noteq> None \<and> number_less (the mx) x then
                     (case number_format_value (the mx) fmt of
                        Inl e \<Rightarrow> Inl e | Inr s \<Rightarrow> Inr (Some (Msg_at_most s)))
                   else Inr None))"

text \<open>
  \<^verbatim>\<open>
  function validate_number_required(input) {
      const raw = input.value.trim();
      const required = input.dataset.required === 'true';
      const custom_msg = input.dataset.errorMessage;
      if (required && string_is_blank(raw)) { return custom_msg || 'To pole jest wymagane'; }
      return validate_number_value(input);
  }
  \<close>
\<close>

definition validate_number_required :: "input_el \<Rightarrow> js_error + message option" where
  "validate_number_required i =
     (let raw = trim (in_value i)
      in if is_required i \<and> string_is_blank raw then
           Inr (Some (case data_error_message i of
                        None \<Rightarrow> Msg_required
                      | Some m \<Rightarrow> if message_truthy m then m else Msg_required))
         else validate_number_value i)"

text \<open>
  \<^verbatim>\<open>
  function validate_string_pattern(value, format) {
      if (format === '$') return true;
      const patterns = [ /^\d{1}$/, /^\d{2}$/, /^\d{2}-\d{2}$/, /^\d{2}-\d{2}-\d{2}$/,
                         /^\d{2}-\d{2}-\d{2}-\d{2}$/ ];
      return value === '' || patterns.some(pattern => pattern.test(value));
  }
  \<close>
  \<open>digit_groups n v\<close> is the match of \<open>v\<close> against \<open>n\<close> dash-separated groups of two digits.
\<close>

fun digit_groups :: "nat \<Rightarrow> string \<Rightarrow> bool" where
  "digit_groups 0 v = False"
| "digit_groups (Suc 0) v = (case v of [a, b] \<Rightarrow> is_digit a \<and> is_digit b | _ \<Rightarrow> False)"
| "digit_groups (Suc (Suc n)) v =
     (case v of
        a # b # c # rest \<Rightarrow> is_digit a \<and> is_digit b \<and> c = CHR ''-'' \<and> digit_groups (Suc n) rest
      | _ \<Rightarrow> False)"

definition validate_string_pattern :: "string \<Rightarrow> string \<Rightarrow> bool" where
  "validate_string_pattern v format =
     (if format = ''$'' then True
      else v = '''' \<or> (case v of [a] \<Rightarrow> is_digit a | _ \<Rightarrow> False)
           \<or> digit_groups 1 v \<or> digit_groups 2 v \<or> digit_groups 3 v \<or> digit_groups 4 v)"

text \<open>
  \<^verbatim>\<open>
  function input_format_error_get(input) {
      const format = input.dataset.format;
      const value = input.value;
      if (!format || format === '$') return null;
      if (format.includes('#')) {
          if (value && !validate_string_pattern(value, format)) { return 'Nieprawidlowy format ...'; }
      }
      return null;
  }
  function validate_string_required(input) {
      const required = input.dataset.required === 'true';
      const value = input.value.trim();
      if (required && !value) { return 'To pole jest wymagane'; }
      return input_format_error_get(input);
  }
  \<close>
\<close>

definition input_format_error_get :: "input_el \<Rightarrow> message option" where
  "input_format_error_get i =
     (case data_format i of
        None \<Rightarrow> None
      | Some format \<Rightarrow>
          if \<not> truthy format \<or> format = ''$'' then None
          else if CHR ''#'' \<in> set format
                  \<and> truthy (in_value i) \<and> \<not> validate_string_pattern (in_value i) format
               then Some Msg_bad_pattern
          else None)"

definition validate_string_required :: "input_el \<Rightarrow> message option" where
  "validate_string_required i =
     (if is_required i \<and> \<not> truthy (trim (in_value i)) then Some Msg_required
      else input_format_error_get i)"

text \<open>
  \<^verbatim>\<open>
  function validate_enum_required(container) {
      const input = container.querySelector('[data-enum-input]');
      const hidden = container.querySelector('[data-enum-value]');
      const required = input?.dataset.required === 'true';
      if (required && !hidden?.value) { return 'Wybierz wartosc z listy'; }
      return null;
  }
  function validate_multi_exclusive_required(container) {
      const hiddenInput = container.querySelector('[data-multi-exclusive-value]');
      const required = hiddenInput?.dataset.required === 'true';
      if (required && !hiddenInput?.value) { return 'Wybierz co najmniej jedna opcje'; }
      return null;
  }
  \<close>
\<close>

definition option_required :: "input_el option \<Rightarrow> bool" where
  "option_required i = (case i of None \<Rightarrow> False | Some x \<Rightarrow> is_required x)"

definition option_value_truthy :: "input_el option \<Rightarrow> bool" where
  "option_value_truthy i = (case i of None \<Rightarrow> False | Some x \<Rightarrow> truthy (in_value x))"

definition validate_enum_required :: "enum_container \<Rightarrow> message option" where
  "validate_enum_required e =
     (if option_required (enum_input e) \<and> \<not> option_value_truthy (enum_value e)
      then Some Msg_choose_value else None)"

definition validate_multi_exclusive_required :: "multi_container \<Rightarrow> message option" where
  "validate_multi_exclusive_required m =
     (if option_required (multi_value m) \<and> \<not> option_value_truthy (multi_value m)
      then Some Msg_choose_option else None)"

subsection \<open>Row validation\<close>

text \<open>
  \<^verbatim>\<open>
  function row_cells_validate(cells) {
      if (!row_cells_has_data(cells)) { row_cells_clear_errors(cells); return true; }
      let valid = true;
      cells.forEach(cell => {
          cell.querySelectorAll('.number-input:not([readonly])').forEach(input => {
              const required = input.dataset.required === 'true';
              const error = validate_number_required(input);
              if (error) { input_show_error(input, error, required ? 'error' : 'warning'); valid = false; }
              else { input_clear_error(input); }
          });
          cell.querySelectorAll('.string-input:not([readonly])').forEach(input => {
              ... validate_string_required(input) ... the same ...
          });
          cell.querySelectorAll('[data-enum-container]').forEach(container => {
              const input = container.querySelector('[data-enum-input]');
              if (input?.hasAttribute('readonly')) return;
              const required = input?.dataset.required === 'true';
              const error = validate_enum_required(container);
              if (error && input) { input_show_error(input, error, ...); valid = false; }
              else if (input) { input_clear_error(input); }
          });
          cell.querySelectorAll('[data-multi-exclusive-container]').forEach(container => {
              const hiddenInput = container.querySelector('[data-multi-exclusive-value]');
              const required = hiddenInput?.dataset.required === 'true';
              const error = validate_multi_exclusive_required(container);
              if (error && hiddenInput) { input_show_error(hiddenInput, error, ...); valid = false; }
              else if (hiddenInput) { input_clear_error(hiddenInput); }
          });
      });
      return valid;
  }
  \<close>
  Each loop is a function that returns the conjunction of the verdicts with the
  updated elements. The loop over number inputs stops at an exception.
\<close>

definition severity :: "input_el \<Rightarrow> error_type" where
  "severity i = (if is_required i then Error else Warning)"

definition mark_input :: "input_el \<Rightarrow> message option \<Rightarrow> bool \<times> input_el" where
  "mark_input i err =
     (case err of
        Some m \<Rightarrow> (False, input_show_error i m (severity i))
      | None \<Rightarrow> (True, input_clear_error i))"

fun validate_number_inputs :: "input_el list \<Rightarrow> js_error + (bool \<times> input_el list)" where
  "validate_number_inputs [] = Inr (True, [])"
| "validate_number_inputs (i # is) =
     (if in_readonly i then
        (case validate_number_inputs is of
           Inl e \<Rightarrow> Inl e
         | Inr (ok, is') \<Rightarrow> Inr (ok, i # is'))
      else
        (case validate_number_required i of
           Inl e \<Rightarrow> Inl e
         | Inr err \<Rightarrow>
             (case validate_number_inputs is of
                Inl e \<Rightarrow> Inl e
              | Inr (ok, is') \<Rightarrow> Inr (fst (mark_input i err) \<and> ok, snd (mark_input i err) # is'))))"

fun validate_string_inputs :: "input_el list \<Rightarrow> bool \<times> input_el list" where
  "validate_string_inputs [] = (True, [])"
| "validate_string_inputs (i # is) =
     (let (ok, is') = validate_string_inputs is
      in if in_readonly i then (ok, i # is')
         else (fst (mark_input i (validate_string_required i)) \<and> ok,
               snd (mark_input i (validate_string_required i)) # is'))"

definition validate_enum_container :: "enum_container \<Rightarrow> bool \<times> enum_container" where
  "validate_enum_container e =
     (case enum_input e of
        None \<Rightarrow> (True, e)
      | Some i \<Rightarrow>
          if in_readonly i then (True, e)
          else (fst (mark_input i (validate_enum_required e)),
                e\<lparr>enum_input := Some (snd (mark_input i (validate_enum_required e)))\<rparr>))"

definition validate_multi_container :: "multi_container \<Rightarrow> bool \<times> multi_container" where
  "validate_multi_container m =
     (case multi_value m of
        None \<Rightarrow> (True, m)
      | Some h \<Rightarrow>
          (fst (mark_input h (validate_multi_exclusive_required m)),
           m\<lparr>multi_value := Some (snd (mark_input h (validate_multi_exclusive_required m)))\<rparr>))"

text \<open>Whether the validation of a cell reaches an input, and so removes the cell's popup.\<close>

definition validation_touches :: "cell \<Rightarrow> bool" where
  "validation_touches c =
     (list_ex (\<lambda>i. \<not> in_readonly i) (number_inputs c)
      \<or> list_ex (\<lambda>i. \<not> in_readonly i) (string_inputs c)
      \<or> list_ex (\<lambda>e. enum_input e \<noteq> None \<and> \<not> visible_readonly e) (enum_containers c)
      \<or> list_ex (\<lambda>m. multi_value m \<noteq> None) (multi_containers c))"

definition validate_cell :: "cell \<Rightarrow> js_error + (bool \<times> cell)" where
  "validate_cell c =
     (case validate_number_inputs (number_inputs c) of
        Inl e \<Rightarrow> Inl e
      | Inr (ok_n, ns) \<Rightarrow>
          (let (ok_s, ss) = validate_string_inputs (string_inputs c);
               es = map validate_enum_container (enum_containers c);
               ms = map validate_multi_container (multi_containers c)
           in Inr (ok_n \<and> ok_s \<and> list_all fst es \<and> list_all fst ms,
                   c\<lparr>number_inputs := ns, string_inputs := ss,
                     enum_containers := map snd es, multi_containers := map snd ms,
                     error_popup := (error_popup c \<and> \<not> validation_touches c)\<rparr>)))"

fun validate_cells :: "cell list \<Rightarrow> js_error + (bool \<times> cell list)" where
  "validate_cells [] = Inr (True, [])"
| "validate_cells (c # cs) =
     (case validate_cell c of
        Inl e \<Rightarrow> Inl e
      | Inr (ok, c') \<Rightarrow>
          (case validate_cells cs of
             Inl e \<Rightarrow> Inl e
           | Inr (oks, cs') \<Rightarrow> Inr (ok \<and> oks, c' # cs')))"

definition row_cells_validate :: "cell list \<Rightarrow> js_error + (bool \<times> cell list)" where
  "row_cells_validate cells =
     (if \<not> row_cells_has_data cells then Inr (True, row_cells_clear_errors cells)
      else validate_cells cells)"

subsection \<open>What validation is meant to establish\<close>

text \<open>
  The fields of a cell that hold user-entered data and are not read-only. The script
  takes a number or text input as read-only by its own attribute and an enum value
  by the attribute of the visible input of its container; the hidden value of a
  multi-exclusive group is never read-only for it.
\<close>

definition option_list :: "'a option \<Rightarrow> 'a list" where
  "option_list x = (case x of None \<Rightarrow> [] | Some y \<Rightarrow> [y])"

definition data_fields :: "cell \<Rightarrow> input_el list" where
  "data_fields c =
     filter (\<lambda>i. \<not> in_readonly i) (number_inputs c)
     @ filter (\<lambda>i. \<not> in_readonly i) (string_inputs c)
     @ concat (map (\<lambda>e. option_list (enum_value e))
                 (filter (\<lambda>e. \<not> visible_readonly e) (enum_containers c)))
     @ concat (map (\<lambda>m. option_list (multi_value m)) (multi_containers c))"

definition whitespace_only :: "string \<Rightarrow> bool" where
  "whitespace_only s = list_all is_space s"

definition row_is_blank :: "cell list \<Rightarrow> bool" where
  "row_is_blank cells =
     list_all (\<lambda>c. list_all (\<lambda>i. whitespace_only (in_value i)) (data_fields c)) cells"













section \<open>The grid runtime\<close>

text \<open>
  The row selector of a dynamic grid (\<^verbatim>\<open>[data-row-selector]\<close>): its text input, its
  dropdown and the catalogue of options, each with \<^verbatim>\<open>data-value\<close>, \<^verbatim>\<open>data-label\<close>,
  \<^verbatim>\<open>data-row-code\<close> and the classes \<^verbatim>\<open>hidden\<close> and \<^verbatim>\<open>bg-blue-100\<close>.
\<close>

record option_el =
  opt_value :: "string option"
  opt_label :: "string option"
  opt_row_code :: "string option"
  opt_hidden :: bool
  opt_highlight :: bool

record row_selector =
  selector_input :: "string option"
  dropdown_hidden :: bool
  selector_options :: "option_el list"

text \<open>
  The root element of a grid: its cells in document order and, in a dynamic grid, the
  row selector. The background classes of the zebra striping are a function of the
  row index and are not modelled.
\<close>

record grid =
  grid_cells :: "cell list"
  row_selector :: "row_selector option"

text \<open>
  \<^verbatim>\<open>
  type StateTable = {
      element: HTMLElement; type: TableType; endpoint: string;
      enum_selected_index: Map<HTMLElement, number>;
      pending_save: boolean; last_save_time: number;
      is_dynamic: boolean; is_unique: boolean; row_counter: number;
  };
  \<close>
  Of \<^verbatim>\<open>enum_selected_index\<close> the model keeps the entry of the row selector. The time
  is in milliseconds, as \<^verbatim>\<open>Date.now()\<close> gives it. The counter is a natural number;
  the script's double counts exactly up to \<open>2^53\<close>.
\<close>

datatype table_type =
    HORIZONTAL_STATIC_UNIQUE
  | HORIZONTAL_DYNAMIC_UNIQUE
  | HORIZONTAL_DYNAMIC_DUPLICABLE
  | VERTICAL_STATIC_UNIQUE
  | SYSTEM_DEFINITION

record state_table =
  element :: grid
  table_kind :: table_type
  endpoint :: string
  selector_selected_index :: "int option"
  pending_save :: bool
  last_save_time :: int
  is_dynamic :: bool
  is_unique :: bool
  row_counter :: nat

definition SAVE_COOLDOWN_MS :: int where
  "SAVE_COOLDOWN_MS = 3000"

subsection \<open>Rows of a grid\<close>

text \<open>
  \<^verbatim>\<open>
  function row_cells_get(table, rowIndex) {
      return Array.from(table.querySelectorAll(`[data-cell][data-row-index="${rowIndex}"]`));
  }
  function all_row_indices_get(state) {
      const indices = new Set();
      state.element.querySelectorAll('[data-cell][data-row-index]').forEach(cell => {
          const idx = row_index_get(cell);
          if (idx !== null) indices.add(idx);
      });
      return Array.from(indices).sort((a, b) => a - b);
  }
  \<close>
\<close>

definition row_cells_get :: "grid \<Rightarrow> nat \<Rightarrow> cell list" where
  "row_cells_get table rowIndex = filter (\<lambda>c. row_index c = Some rowIndex) (grid_cells table)"

fun insert_sorted :: "nat \<Rightarrow> nat list \<Rightarrow> nat list" where
  "insert_sorted n [] = [n]"
| "insert_sorted n (m # ms) =
     (if n < m then n # m # ms else if n = m then m # ms else m # insert_sorted n ms)"

definition all_row_indices_get :: "state_table \<Rightarrow> nat list" where
  "all_row_indices_get state =
     foldr insert_sorted (concat (map (\<lambda>c. option_list (row_index c)) (grid_cells (element state)))) []"

text \<open>Putting the cells of a row back into the grid, at their places.\<close>

fun replace_row :: "nat \<Rightarrow> cell list \<Rightarrow> cell list \<Rightarrow> cell list" where
  "replace_row rowIndex new [] = []"
| "replace_row rowIndex new (c # cs) =
     (if row_index c = Some rowIndex then
        (case new of [] \<Rightarrow> c # replace_row rowIndex [] cs
                   | n # ns \<Rightarrow> n # replace_row rowIndex ns cs)
      else c # replace_row rowIndex new cs)"

text \<open>
  \<^verbatim>\<open>
  function table_validate_all(state) {
      let valid = true;
      for (const rowIndex of all_row_indices_get(state)) {
          const cells = row_cells_get(state.element, rowIndex);
          if (!row_cells_validate(cells)) { valid = false; }
      }
      return valid;
  }
  \<close>
\<close>

fun validate_rows :: "nat list \<Rightarrow> grid \<Rightarrow> js_error + (bool \<times> grid)" where
  "validate_rows [] g = Inr (True, g)"
| "validate_rows (rowIndex # rest) g =
     (case row_cells_validate (row_cells_get g rowIndex) of
        Inl e \<Rightarrow> Inl e
      | Inr (ok, row') \<Rightarrow>
          (case validate_rows rest (g\<lparr>grid_cells := replace_row rowIndex row' (grid_cells g)\<rparr>) of
             Inl e \<Rightarrow> Inl e
           | Inr (oks, g') \<Rightarrow> Inr (ok \<and> oks, g')))"

definition table_validate_all :: "state_table \<Rightarrow> js_error + (bool \<times> state_table)" where
  "table_validate_all state =
     (case validate_rows (all_row_indices_get state) (element state) of
        Inl e \<Rightarrow> Inl e
      | Inr (ok, g) \<Rightarrow> Inr (ok, state\<lparr>element := g\<rparr>))"

subsection \<open>Serialization\<close>

text \<open>
  A serialized row is a JavaScript object: its keys in the order of their first
  assignment, a later assignment to a key replacing its value.
\<close>

datatype js_value = JS_number number | JS_string string

type_synonym js_object = "(string \<times> js_value) list"

fun object_set :: "js_object \<Rightarrow> string \<Rightarrow> js_value \<Rightarrow> js_object" where
  "object_set [] k v = [(k, v)]"
| "object_set ((k', v') # kvs) k v =
     (if k' = k then (k, v) # kvs else (k', v') # object_set kvs k v)"

text \<open>
  \<^verbatim>\<open>
  c.querySelectorAll('.number-input').forEach(input => {
      const value = number_value_parse(input.value);
      if (value !== null) data[input.name] = value;
  });
  c.querySelectorAll('.string-input').forEach(input => {
      const value = input.value.trim();
      if (value) data[input.name] = value;
  });
  c.querySelectorAll('[data-enum-value]').forEach(input => {
      if (input.value) data[input.name] = input.value;
  });
  c.querySelectorAll('[data-multi-exclusive-value]').forEach(input => {
      if (input.value) data[input.name] = input.value;
  });
  \<close>
\<close>

definition put_number :: "js_object \<Rightarrow> input_el \<Rightarrow> js_object" where
  "put_number d i =
     (case number_value_parse (in_value i) of
        None \<Rightarrow> d
      | Some v \<Rightarrow> object_set d (in_name i) (JS_number v))"

definition put_string :: "js_object \<Rightarrow> input_el \<Rightarrow> js_object" where
  "put_string d i =
     (if truthy (trim (in_value i)) then object_set d (in_name i) (JS_string (trim (in_value i)))
      else d)"

definition put_hidden :: "js_object \<Rightarrow> input_el \<Rightarrow> js_object" where
  "put_hidden d i =
     (if truthy (in_value i) then object_set d (in_name i) (JS_string (in_value i)) else d)"

definition enum_values :: "cell \<Rightarrow> input_el list" where
  "enum_values c = concat (map (\<lambda>e. option_list (enum_value e)) (enum_containers c))"

definition multi_values :: "cell \<Rightarrow> input_el list" where
  "multi_values c = concat (map (\<lambda>m. option_list (multi_value m)) (multi_containers c))"

definition serialize_cell :: "js_object \<Rightarrow> cell \<Rightarrow> js_object" where
  "serialize_cell d c =
     foldl put_hidden
       (foldl put_hidden
          (foldl put_string (foldl put_number d (number_inputs c)) (string_inputs c))
          (enum_values c))
       (multi_values c)"

text \<open>
  \<^verbatim>\<open>
  function table_serialize(state) {
      const rows = [];
      for (const rowIndex of all_row_indices_get(state)) {
          const cells = row_cells_get(state.element, rowIndex);
          if (!row_cells_has_data(cells)) continue;
          const data = {};
          cells.forEach(c => { ... });
          rows.push(data);
      }
      return rows;
  }
  \<close>
\<close>

definition serialize_row :: "cell list \<Rightarrow> js_object" where
  "serialize_row row = foldl serialize_cell [] row"

definition table_serialize :: "state_table \<Rightarrow> js_object list" where
  "table_serialize state =
     map serialize_row
       (filter row_cells_has_data
          (map (row_cells_get (element state)) (all_row_indices_get state)))"

text \<open>
  \<^verbatim>\<open>table_serialize_vertical\<close> makes one object of the whole grid: every number
  input, then every text input, every enum value and every multi-exclusive value.
\<close>

definition table_serialize_vertical :: "state_table \<Rightarrow> js_object" where
  "table_serialize_vertical state =
     (let cs = grid_cells (element state)
      in foldl put_hidden
           (foldl put_hidden
              (foldl put_string
                 (foldl put_number [] (concat (map number_inputs cs)))
                 (concat (map string_inputs cs)))
              (concat (map enum_values cs)))
           (concat (map multi_values cs)))"

subsection \<open>Toasts and network calls\<close>

text \<open>
  Effects are values: a toast is its text and its type, a network call is the request
  the script hands to \<^verbatim>\<open>fetch\<close>. The outcome of a call is given to the model from
  outside: the promise is rejected, or a response arrives with its status and body;
  \<^verbatim>\<open>response.ok\<close> is a status from 200 to 299.
\<close>

datatype toast_type = Toast_success | Toast_error | Toast_warning

datatype fetch_failure = Network_failure | Bad_status nat

datatype toast_text =
    Wait_seconds int
  | Form_has_errors
  | No_data_to_save
  | Saved
  | Save_failed fetch_failure
  | Add_row_failed fetch_failure

type_synonym toast = "toast_text \<times> toast_type"

datatype payload = Vertical_payload js_object | Horizontal_payload "js_object list"

record request =
  req_url :: string
  req_method :: string
  req_body :: "payload option"

datatype 'b fetch_outcome = Rejected | Response nat 'b

definition response_ok :: "nat \<Rightarrow> bool" where
  "response_ok status = (200 \<le> status \<and> status \<le> 299)"

subsection \<open>Success display\<close>

text \<open>
  \<^verbatim>\<open>
  function row_cells_show_success(cells) {
      cells.forEach(cell => {
          cell.querySelectorAll('.number-input:not([readonly])').forEach(input => {
              if (input.value.trim() !== '') input_show_success(input);
          });
          cell.querySelectorAll('.string-input:not([readonly])').forEach(input => {
              if (input.value.trim() !== '') input_show_success(input);
          });
          cell.querySelectorAll('[data-enum-container]').forEach(container => {
              const input = container.querySelector('[data-enum-input]');
              if (input?.hasAttribute('readonly')) return;
              const hidden = container.querySelector('[data-enum-value]');
              if (hidden?.value && input) input_show_success(input);
          });
      });
  }
  \<close>
  \<^verbatim>\<open>input_show_success\<close> puts the green classes on the input; the timer that takes
  them off after 2000 ms is outside the model.
\<close>

definition input_show_success :: "input_el \<Rightarrow> input_el" where
  "input_show_success i = i\<lparr>success_classes := True\<rparr>"

definition show_success_if_filled :: "input_el \<Rightarrow> input_el" where
  "show_success_if_filled i =
     (if \<not> in_readonly i \<and> trim (in_value i) \<noteq> '''' then input_show_success i else i)"

definition enum_show_success :: "enum_container \<Rightarrow> enum_container" where
  "enum_show_success e =
     (case enum_input e of
        None \<Rightarrow> e
      | Some i \<Rightarrow>
          if in_readonly i then e
          else if option_value_truthy (enum_value e)
               then e\<lparr>enum_input := Some (input_show_success i)\<rparr>
          else e)"

definition cell_show_success :: "cell \<Rightarrow> cell" where
  "cell_show_success c =
     c\<lparr>number_inputs := map show_success_if_filled (number_inputs c),
       string_inputs := map show_success_if_filled (string_inputs c),
       enum_containers := map enum_show_success (enum_containers c)\<rparr>"

definition row_cells_show_success :: "cell list \<Rightarrow> cell list" where
  "row_cells_show_success row = map cell_show_success row"

fun show_success_rows :: "nat list \<Rightarrow> grid \<Rightarrow> grid" where
  "show_success_rows [] g = g"
| "show_success_rows (rowIndex # rest) g =
     (let row = row_cells_get g rowIndex
      in show_success_rows rest
           (if row_cells_has_data row
            then g\<lparr>grid_cells := replace_row rowIndex (row_cells_show_success row) (grid_cells g)\<rparr>
            else g))"

subsection \<open>Saving\<close>

text \<open>
  \<^verbatim>\<open>
  async function table_save(state) {
      if (state.pending_save) return false;
      const now = Date.now();
      const time_since_last = now - state.last_save_time;
      if (time_since_last < SAVE_COOLDOWN_MS) {
          const remaining = Math.ceil((SAVE_COOLDOWN_MS - time_since_last) / 1000);
          toast_show(`Poczekaj ${remaining}s przed kolejnym zapisem`, 'warning');
          return false;
      }
      if (!table_validate_all(state)) { toast_show('Formularz zawiera bledy', 'error'); return false; }
      let data;
      if (state.type === 'VERTICAL_STATIC_UNIQUE') { data = table_serialize_vertical(state); }
      else { data = table_serialize(state); }
      if (state.type === 'VERTICAL_STATIC_UNIQUE') {
          if (Object.keys(data).length === 0) { toast_show('Brak danych do zapisania', 'warning'); return false; }
      } else {
          if (data.length === 0) { toast_show('Brak danych do zapisania', 'warning'); return false; }
      }
      state.pending_save = true;
      try {
          const response = await fetch(state.endpoint, { method: 'POST', ..., body: JSON.stringify(data) });
          if (!response.ok) { throw new Error(`Blad serwera: ${response.status}`); }
          state.last_save_time = Date.now();
          for (const rowIndex of all_row_indices_get(state)) {
              const cells = row_cells_get(state.element, rowIndex);
              if (row_cells_has_data(cells)) { row_cells_show_success(cells); }
          }
          toast_show('Zapisano pomyslnie', 'success');
          return true;
      } catch (err) { toast_show(`Blad zapisu: ${err}`, 'error'); return false; }
      finally { state.pending_save = false; }
  }
  \<close>
  The function suspends once, at \<^verbatim>\<open>await fetch\<close>. \<open>table_save_start\<close> is the part up
  to there, with the clock reading \<open>now\<close>: it returns, throws, or leaves a request in
  flight. \<open>table_save_finish\<close> is the part that runs when the call settles, on the
  state of that moment, with the outcome and the second clock reading.
\<close>

datatype save_step =
    Returned bool state_table "toast list"
  | Threw js_error
  | Awaiting request state_table

definition payload_empty :: "payload \<Rightarrow> bool" where
  "payload_empty p = (case p of Vertical_payload d \<Rightarrow> d = [] | Horizontal_payload rows \<Rightarrow> rows = [])"

definition table_save_start :: "state_table \<Rightarrow> int \<Rightarrow> save_step" where
  "table_save_start state now =
     (if pending_save state then Returned False state []
      else
        (let time_since_last = now - last_save_time state
         in if time_since_last < SAVE_COOLDOWN_MS then
              (let remaining = \<lceil>(of_int (SAVE_COOLDOWN_MS - time_since_last) :: rat) / 1000\<rceil>
               in Returned False state [(Wait_seconds remaining, Toast_warning)])
            else
              (case table_validate_all state of
                 Inl e \<Rightarrow> Threw e
               | Inr (valid, state1) \<Rightarrow>
                   if \<not> valid then Returned False state1 [(Form_has_errors, Toast_error)]
                   else
                     (let data = (if table_kind state1 = VERTICAL_STATIC_UNIQUE
                                  then Vertical_payload (table_serialize_vertical state1)
                                  else Horizontal_payload (table_serialize state1))
                      in if payload_empty data
                         then Returned False state1 [(No_data_to_save, Toast_warning)]
                         else Awaiting
                                \<lparr>req_url = endpoint state1, req_method = ''POST'',
                                 req_body = Some data\<rparr>
                                (state1\<lparr>pending_save := True\<rparr>)))))"

definition table_save_finish ::
  "state_table \<Rightarrow> 'b fetch_outcome \<Rightarrow> int \<Rightarrow> bool \<times> state_table \<times> toast list" where
  "table_save_finish state outcome now =
     (case outcome of
        Rejected \<Rightarrow>
          (False, state\<lparr>pending_save := False\<rparr>, [(Save_failed Network_failure, Toast_error)])
      | Response status body \<Rightarrow>
          if \<not> response_ok status then
            (False, state\<lparr>pending_save := False\<rparr>, [(Save_failed (Bad_status status), Toast_error)])
          else
            (let state1 = state\<lparr>last_save_time := now\<rparr>;
                 g = show_success_rows (all_row_indices_get state1) (element state1)
             in (True, state1\<lparr>element := g, pending_save := False\<rparr>, [(Saved, Toast_success)])))"

text \<open>The network calls and the toasts of a step, and the state it leaves.\<close>

fun step_requests :: "save_step \<Rightarrow> request list" where
  "step_requests (Awaiting r s) = [r]"
| "step_requests _ = []"

subsection \<open>What serialization is meant to produce\<close>

text \<open>
  The names under which the fields of a row appear in its object: a number input when
  its text parses, a text input when it is not empty after trimming, a hidden enum or
  multi-exclusive value when it is not the empty string; read-only fields included.
\<close>

definition cell_present_names :: "cell \<Rightarrow> string list" where
  "cell_present_names c =
     map in_name (filter (\<lambda>i. number_value_parse (in_value i) \<noteq> None) (number_inputs c))
     @ map in_name (filter (\<lambda>i. trim (in_value i) \<noteq> '''') (string_inputs c))
     @ map in_name (filter (\<lambda>i. in_value i \<noteq> '''') (enum_values c))
     @ map in_name (filter (\<lambda>i. in_value i \<noteq> '''') (multi_values c))"

definition present_names :: "cell list \<Rightarrow> string list" where
  "present_names row = concat (map cell_present_names row)"

text \<open>Every field of a row, and those that hold more than white space.\<close>

definition row_fields :: "cell list \<Rightarrow> input_el list" where
  "row_fields row =
     concat (map (\<lambda>c. number_inputs c @ string_inputs c @ enum_values c @ multi_values c) row)"

definition nonempty_fields :: "cell list \<Rightarrow> input_el list" where
  "nonempty_fields row = filter (\<lambda>i. \<not> whitespace_only (in_value i)) (row_fields row)"

text \<open>The rows of a grid, by ascending row index.\<close>

definition table_rows :: "state_table \<Rightarrow> cell list list" where
  "table_rows state = map (row_cells_get (element state)) (all_row_indices_get state)"

section \<open>Sample markup\<close>

text \<open>Elements without attributes, from which the examples below are built.\<close>

definition plain_input :: "string \<Rightarrow> string \<Rightarrow> input_el" where
  "plain_input n v =
     \<lparr>in_name = n, in_value = v, in_readonly = False, data_required = None,
      data_format = None, data_min = None, data_max = None, data_error_message = None,
      data_error_type = None, error_classes = None, success_classes = False\<rparr>"

definition plain_cell :: "nat \<Rightarrow> cell" where
  "plain_cell r =
     \<lparr>row_index = Some r, row_code = None, number_inputs = [], string_inputs = [],
      enum_containers = [], multi_containers = [], error_popup = False\<rparr>"

definition plain_state :: "table_type \<Rightarrow> cell list \<Rightarrow> state_table" where
  "plain_state k cs =
     \<lparr>element = \<lparr>grid_cells = cs, row_selector = None\<rparr>, table_kind = k,
      endpoint = ''/t/s/'', selector_selected_index = None, pending_save = False,
      last_save_time = 0, is_dynamic = False, is_unique = False, row_counter = 0\<rparr>"

text \<open>A static grid of one row with the number 5 in it, last saved at time 1000.\<close>

definition saved_state :: state_table where
  "saved_state =
     (plain_state HORIZONTAL_STATIC_UNIQUE
        [(plain_cell 0)\<lparr>number_inputs := [plain_input ''X'' ''5'']\<rparr>])\<lparr>last_save_time := 1000\<rparr>"




text \<open>
  A row whose number input holds \<open>2^53 + 1\<close> under an upper bound of \<open>2^53\<close>: both texts
  denote the double \<open>2^53\<close>.
\<close>

definition beyond_precision_row :: "cell list" where
  "beyond_precision_row =
     [(plain_cell 0)
        \<lparr>number_inputs :=
           [(plain_input ''X'' ''9007199254740993'')\<lparr>data_max := Some ''9007199254740992''\<rparr>]\<rparr>]"

text \<open>
  A static grid of one row: the read-only code cell holds \<^verbatim>\<open>01\<close>, the number input
  beside it is empty.
\<close>

definition code_only_state :: state_table where
  "code_only_state =
     plain_state HORIZONTAL_STATIC_UNIQUE
       [(plain_cell 0)
          \<lparr>string_inputs := [(plain_input ''T_Kod'' ''01'')\<lparr>in_readonly := True\<rparr>],
           number_inputs := [plain_input ''X'' '''']\<rparr>]"

text \<open>The same row with \<^verbatim>\<open>12,5\<close> typed into the number input.\<close>

definition code_and_number_state :: state_table where
  "code_and_number_state =
     plain_state HORIZONTAL_STATIC_UNIQUE
       [(plain_cell 0)
          \<lparr>string_inputs := [(plain_input ''T_Kod'' ''01'')\<lparr>in_readonly := True\<rparr>],
           number_inputs := [plain_input ''X'' ''12,5'']\<rparr>]"

section \<open>Dynamic rows\<close>

text \<open>
  \<^verbatim>\<open>
  async function dynamic_table_add_row(state, code) {
      const index = state.row_counter++;
      const url = `${state.endpoint.replace(/\/$/, '')}/${code}/${index}`;
      try {
          const response = await fetch(url);
          if (!response.ok) throw new Error(`${response.status}`);
          const html = await response.text();
          state.element.insertAdjacentHTML('beforeend', html);
          if (state.is_unique) {
              const option = state.element.querySelector(
                  `[data-row-selector] [data-enum-option][data-value="${code}"]`);
              option?.classList.add('hidden');
          }
          zebra_striping_apply(state.element);
          const input = state.element.querySelector('[data-row-selector] [data-enum-input]');
          if (input) input.value = '';
          state.element.querySelector('[data-row-selector] [data-enum-dropdown]')?.classList.add('hidden');
          return true;
      } catch (err) {
          toast_show(`Blad dodawania wiersza: ${err}`, 'error');
          return false;
      }
  }
  \<close>
  The function takes the next index and sends the request before it suspends;
  \<open>dynamic_table_add_row_start\<close> is that part. \<open>dynamic_table_add_row_finish\<close> runs
  when the call settles, on the state of that moment. The body of the response is the
  row fragment, given as the cells it holds; they go to the end of the grid.
\<close>

definition strip_trailing_slash :: "string \<Rightarrow> string" where
  "strip_trailing_slash s = (if s \<noteq> [] \<and> last s = CHR ''/'' then butlast s else s)"

definition dynamic_table_add_row_start :: "state_table \<Rightarrow> string \<Rightarrow> nat \<times> request \<times> state_table" where
  "dynamic_table_add_row_start state code =
     (let index = row_counter state
      in (index,
          \<lparr>req_url = strip_trailing_slash (endpoint state) @ ''/'' @ code @ ''/'' @ digits_of_nat index,
           req_method = ''GET'', req_body = None\<rparr>,
          state\<lparr>row_counter := index + 1\<rparr>))"

text \<open>The first option that a predicate selects gets its \<^verbatim>\<open>hidden\<close> class set or removed.\<close>

fun set_first_hidden :: "(option_el \<Rightarrow> bool) \<Rightarrow> bool \<Rightarrow> option_el list \<Rightarrow> option_el list" where
  "set_first_hidden P h [] = []"
| "set_first_hidden P h (opt # opts) =
     (if P opt then opt\<lparr>opt_hidden := h\<rparr> # opts else opt # set_first_hidden P h opts)"

definition fetch_ok :: "'b fetch_outcome \<Rightarrow> bool" where
  "fetch_ok outcome =
     (case outcome of Rejected \<Rightarrow> False | Response status body \<Rightarrow> response_ok status)"

definition dynamic_table_add_row_finish ::
  "state_table \<Rightarrow> string \<Rightarrow> (cell list) fetch_outcome \<Rightarrow> bool \<times> state_table \<times> toast list" where
  "dynamic_table_add_row_finish state code outcome =
     (case outcome of
        Rejected \<Rightarrow> (False, state, [(Add_row_failed Network_failure, Toast_error)])
      | Response status html \<Rightarrow>
          if \<not> response_ok status
          then (False, state, [(Add_row_failed (Bad_status status), Toast_error)])
          else
            (let g = element state;
                 sel = map_option
                         (\<lambda>rs. rs\<lparr>selector_options :=
                                     (if is_unique state
                                      then set_first_hidden (\<lambda>opt. opt_value opt = Some code) True
                                             (selector_options rs)
                                      else selector_options rs),
                                   selector_input := map_option (\<lambda>v. '''') (selector_input rs),
                                   dropdown_hidden := True\<rparr>)
                         (row_selector g)
             in (True,
                 state\<lparr>element := g\<lparr>grid_cells := grid_cells g @ html, row_selector := sel\<rparr>\<rparr>,
                 [])))"

text \<open>
  \<^verbatim>\<open>
  function dynamic_table_delete_row(state, cell) {
      const rowIndex = cell.dataset.rowIndex;
      const rowCode = cell.dataset.rowCode;
      if (!rowIndex || !rowCode) return;
      state.element.querySelectorAll(`[data-cell][data-row-index="${rowIndex}"]`).forEach(el => el.remove());
      if (state.is_unique) {
          const option = state.element.querySelector(
              `[data-row-selector] [data-enum-option][data-row-code="${rowCode}"]`);
          option?.classList.remove('hidden');
      }
      zebra_striping_apply(state.element);
  }
  \<close>
\<close>

definition dynamic_table_delete_row :: "state_table \<Rightarrow> cell \<Rightarrow> state_table" where
  "dynamic_table_delete_row state c =
     (case (row_index c, row_code c) of
        (Some rowIndex, Some rowCode) \<Rightarrow>
          if \<not> truthy rowCode then state
          else
            (let g = element state;
                 sel = map_option
                         (\<lambda>rs. rs\<lparr>selector_options :=
                                     (if is_unique state
                                      then set_first_hidden (\<lambda>opt. opt_row_code opt = Some rowCode) False
                                             (selector_options rs)
                                      else selector_options rs)\<rparr>)
                         (row_selector g)
             in state\<lparr>element :=
                        g\<lparr>grid_cells := filter (\<lambda>x. row_index x \<noteq> Some rowIndex) (grid_cells g),
                          row_selector := sel\<rparr>\<rparr>)
      | _ \<Rightarrow> state)"

text \<open>
  \<^verbatim>\<open>
  function dynamic_table_handle_selector_input(state, target) {
      const container = target.closest('[data-enum-container]');
      const dropdown = container.querySelector('[data-enum-dropdown]');
      const query = target.value.toLowerCase();
      dropdown?.classList.remove('hidden');
      state.enum_selected_index.set(container, -1);
      container.querySelectorAll('[data-enum-option]').forEach(opt => {
          const el = opt;
          if (state.is_unique && el.classList.contains('hidden')) return; // Already hidden by unique logic
          const text = `${el.dataset.value} - ${el.dataset.label}`.toLowerCase();
          el.classList.toggle('hidden', !text.includes(query));
          el.classList.remove('bg-blue-100');
      });
  }
  \<close>
  The target is the text input of the row selector; \<open>text\<close> is the value that the
  browser has put into it when the event arrives, which the model records in the
  selector.
\<close>

definition to_lower :: "string \<Rightarrow> string" where
  "to_lower s =
     map (\<lambda>c. let n = (of_char c :: nat)
               in if (65 \<le> n \<and> n \<le> 90) \<or> (192 \<le> n \<and> n \<le> 222 \<and> n \<noteq> 215)
                  then char_of (n + 32) else c) s"

definition dataset_text :: "string option \<Rightarrow> string" where
  "dataset_text a = (case a of None \<Rightarrow> ''undefined'' | Some s \<Rightarrow> s)"

definition option_text :: "option_el \<Rightarrow> string" where
  "option_text el = to_lower (dataset_text (opt_value el) @ '' - '' @ dataset_text (opt_label el))"

definition filter_option :: "bool \<Rightarrow> string \<Rightarrow> option_el \<Rightarrow> option_el" where
  "filter_option unique query el =
     (if unique \<and> opt_hidden el then el
      else el\<lparr>opt_hidden := \<not> str_includes (option_text el) query, opt_highlight := False\<rparr>)"

definition dynamic_table_handle_selector_input :: "state_table \<Rightarrow> string \<Rightarrow> state_table" where
  "dynamic_table_handle_selector_input state text =
     (let query = to_lower text;
          g = element state
      in state
           \<lparr>element :=
              g\<lparr>row_selector :=
                  map_option
                    (\<lambda>rs. rs\<lparr>selector_input := map_option (\<lambda>v. text) (selector_input rs),
                              dropdown_hidden := False,
                              selector_options :=
                                map (filter_option (is_unique state) query) (selector_options rs)\<rparr>)
                    (row_selector g)\<rparr>,
            selector_selected_index := Some (- 1)\<rparr>)"

text \<open>
  The \<^verbatim>\<open>Enter\<close> key in the row selector (\<^verbatim>\<open>dynamic_table_handle_selector_keydown\<close>):
  \<^verbatim>\<open>
      const is_visible = dropdown && !dropdown.classList.contains('hidden');
      ...
      if (!is_visible) return;
      const options = Array.from(container.querySelectorAll('[data-enum-option]:not(.hidden)'));
      let index = state.enum_selected_index.get(container) ?? -1;
      ...
      else if (e.key === 'Enter') {
          e.preventDefault();
          const selected = options[index];
          if (index >= 0 && selected?.dataset.rowCode) {
              dynamic_table_add_row(state, selected.dataset.rowCode);
          }
          return;
      }
  \<close>
  and a click on an option of the catalogue (\<^verbatim>\<open>table_handle_click\<close>):
  \<^verbatim>\<open>
      const selectorOption = target.closest('[data-row-selector] [data-enum-option]');
      if (selectorOption?.dataset.rowCode) {
          e.preventDefault();
          dynamic_table_add_row(state, selectorOption.dataset.rowCode);
          return;
      }
  \<close>
  Either gives the code with which \<open>dynamic_table_add_row\<close> is called, if any. An option
  with the class \<^verbatim>\<open>hidden\<close> is not displayed and receives no click.
\<close>

definition visible_options :: "state_table \<Rightarrow> option_el list" where
  "visible_options state =
     (case row_selector (element state) of
        None \<Rightarrow> []
      | Some rs \<Rightarrow> filter (\<lambda>el. \<not> opt_hidden el) (selector_options rs))"

definition selector_enter :: "state_table \<Rightarrow> string option" where
  "selector_enter state =
     (case row_selector (element state) of
        None \<Rightarrow> None
      | Some rs \<Rightarrow>
          if dropdown_hidden rs then None
          else
            (let opts = visible_options state;
                 index = (case selector_selected_index state of None \<Rightarrow> - 1 | Some i \<Rightarrow> i)
             in if 0 \<le> index \<and> nat index < length opts then
                  (case opt_row_code (opts ! nat index) of
                     None \<Rightarrow> None
                   | Some rc \<Rightarrow> if truthy rc then Some rc else None)
                else None))"

definition selector_click :: "state_table \<Rightarrow> nat \<Rightarrow> string option" where
  "selector_click state k =
     (let opts = visible_options state
      in if k < length opts then
           (case opt_row_code (opts ! k) of
              None \<Rightarrow> None
            | Some rc \<Rightarrow> if truthy rc then Some rc else None)
         else None)"

subsection \<open>Runs of the row provisioner\<close>

text \<open>
  The events that reach the row provisioner of one grid, in the order in which the
  event loop runs them: an add is called with a code, a pending add settles with the
  outcome of its call, a row is deleted through one of its cells, text is typed into
  the selector. \<open>run_events\<close> folds them over the state and collects the row indices
  that the adds took.
\<close>

datatype event =
    Add_called string
  | Add_settled string "(cell list) fetch_outcome"
  | Delete_clicked cell
  | Selector_typed string

fun run_event :: "state_table \<Rightarrow> event \<Rightarrow> state_table \<times> nat list" where
  "run_event state (Add_called code) =
     (case dynamic_table_add_row_start state code of (index, r, state') \<Rightarrow> (state', [index]))"
| "run_event state (Add_settled code outcome) =
     (case dynamic_table_add_row_finish state code outcome of (ok, state', ts) \<Rightarrow> (state', []))"
| "run_event state (Delete_clicked c) = (dynamic_table_delete_row state c, [])"
| "run_event state (Selector_typed text) = (dynamic_table_handle_selector_input state text, [])"

fun run_events :: "state_table \<Rightarrow> event list \<Rightarrow> state_table \<times> nat list" where
  "run_events state [] = (state, [])"
| "run_events state (ev # evs) =
     (case run_event state ev of
        (state', is) \<Rightarrow> (case run_events state' evs of (state'', js) \<Rightarrow> (state'', is @ js)))"

text \<open>
  A grid in unique mode with an empty row area and a catalogue of one code, its
  dropdown open and its first option highlighted; and the fragment the server renders
  for a code and an index.
\<close>

definition unique_state :: state_table where
  "unique_state =
     \<lparr>element =
        \<lparr>grid_cells = [],
         row_selector =
           Some \<lparr>selector_input = Some '''', dropdown_hidden = False,
                 selector_options =
                   [\<lparr>opt_value = Some ''A'', opt_label = Some ''Wheat'', opt_row_code = Some ''A'',
                     opt_hidden = False, opt_highlight = True\<rparr>]\<rparr>\<rparr>,
      table_kind = HORIZONTAL_DYNAMIC_UNIQUE, endpoint = ''/t/s/'',
      selector_selected_index = Some 0, pending_save = False, last_save_time = 0,
      is_dynamic = True, is_unique = True, row_counter = 0\<rparr>"

definition row_fragment :: "string \<Rightarrow> nat \<Rightarrow> cell list" where
  "row_fragment code index =
     [(plain_cell index)\<lparr>row_code := Some code, number_inputs := [plain_input ''X'' '''']\<rparr>]"

section \<open>The server: table description\<close>

text \<open>
  \<^verbatim>\<open>
  type TableCell struct { Value string; Name string; Column *TableColumn;
                          Required int64; Editable int64; Blocked bool }
  type TableRow struct { Cells []TableCell; Title string; Code string; Index int64 }
  \<close>
  Of a column the model keeps the fields that row construction reads; the pointer of a
  cell to its column is left out. Go strings are byte strings.
\<close>

record table_column =
  col_Name :: string
  col_Title :: string
  col_Label :: string
  col_Required :: int

record table_cell =
  Value :: string
  Name :: string
  Required :: int
  Editable :: int
  Blocked :: bool

record table_row =
  Cells :: "table_cell list"
  Title :: string
  Code :: string
  Index :: int

record b_blokady =
  blk_Column :: string
  blk_Code :: string

record b_kody_podtabele =
  kod_Code :: string
  kod_Title :: string

subsection \<open>Decoded JSON\<close>

text \<open>
  What \<^verbatim>\<open>json.Unmarshal\<close> puts into an \<^verbatim>\<open>any\<close>: nil, bool, float64, string, a slice
  or a map. A float64 is kept by its exact value. A map is given by its entries, keys
  distinct, in the order in which a \<^verbatim>\<open>range\<close> loop visits them in the run at hand;
  Go leaves that order open.
\<close>

datatype json =
    JNull
  | JBool bool
  | JNumber rat
  | JString string
  | JArray "json list"
  | JObject "(string \<times> json) list"

type_synonym go_map = "(string \<times> json) list"

text \<open>
  The library functions whose output the model does not compute are parameters:
  \<^verbatim>\<open>strconv.FormatFloat(val, 'f', -1, 64)\<close>, \<^verbatim>\<open>fmt.Sprintf("%v", val)\<close>, and the text
  that \<open>formatValue\<close> gives for a float64 outside the range of int64, where the result
  of the conversion \<^verbatim>\<open>int64(val)\<close> depends on the implementation.
\<close>

record go_lib =
  FormatFloat :: "rat \<Rightarrow> string"
  Sprintf_v :: "json \<Rightarrow> string"
  format_beyond_int64 :: "rat \<Rightarrow> string"

text \<open>\<^verbatim>\<open>strconv.FormatInt(i, 10)\<close>.\<close>

definition FormatInt :: "int \<Rightarrow> string" where
  "FormatInt i = (if i < 0 then ''-'' else '''') @ digits_of_nat (nat \<bar>i\<bar>)"

text \<open>The conversion \<^verbatim>\<open>int64(val)\<close> of a float64 within range: truncation towards zero.\<close>

definition int64_of :: "rat \<Rightarrow> int" where
  "int64_of v = (if v < 0 then - \<lfloor>- v\<rfloor> else \<lfloor>v\<rfloor>)"

definition in_int64_range :: "rat \<Rightarrow> bool" where
  "in_int64_range v = (- (2 ^ 63) \<le> int64_of v \<and> int64_of v < 2 ^ 63)"

text \<open>
  \<^verbatim>\<open>
  func formatValue(v any) string {
      switch val := v.(type) {
      case string:  return val
      case float64:
          // Check if it's actually an integer
          if val == float64(int64(val)) { return strconv.FormatInt(int64(val), 10) }
          return strconv.FormatFloat(val, 'f', -1, 64)
      case nil:     return ""
      default:      return fmt.Sprintf("%v", val)
      }
  }
  \<close>
\<close>

definition formatValue :: "go_lib \<Rightarrow> json \<Rightarrow> string" where
  "formatValue lib v =
     (case v of
        JString s \<Rightarrow> s
      | JNumber val \<Rightarrow>
          if in_int64_range val then
            (if val = of_int (int64_of val) then FormatInt (int64_of val)
             else FormatFloat lib val)
          else format_beyond_int64 lib val
      | JNull \<Rightarrow> ''''
      | _ \<Rightarrow> Sprintf_v lib v)"

subsection \<open>The cell populator\<close>

text \<open>
  \<^verbatim>\<open>
  func PopulateCellsFromArray(rows []TableRow, jsonData string) error {
      if jsonData == "" { return nil }
      var dataArray []map[string]any
      if err := json.Unmarshal([]byte(jsonData), &dataArray); err != nil { return err }
      // Build lookup: code -> row data
      lookup := make(map[string]map[string]any)
      for _, item := range dataArray {
          // Find the _Kod field to use as key
          for k, v := range item {
              if strings.HasSuffix(k, "_Kod") {
                  if code, ok := v.(string); ok { lookup[code] = item }
                  break
              }
          }
      }
      // Populate cells
      for i := range rows {
          row := &rows[i]
          data, exists := lookup[row.Code]
          if !exists { continue }
          for j := range row.Cells {
              cell := &row.Cells[j]
              if val, ok := data[cell.Name]; ok { cell.Value = formatValue(val) }
          }
      }
      return nil
  }
  \<close>
  The function works on the rows in place and returns an error or nil; the model
  returns the rows with the error. \<open>unmarshalled\<close> is what \<^verbatim>\<open>json.Unmarshal\<close> returns
  for \<open>jsonData\<close>: an error, or the decoded slice of maps.
\<close>

definition first_kod :: "go_map \<Rightarrow> (string \<times> json) option" where
  "first_kod item = find (\<lambda>(k, v). ends_with k ''_Kod'') item"

definition lookup_add :: "(string \<rightharpoonup> go_map) \<Rightarrow> go_map \<Rightarrow> (string \<rightharpoonup> go_map)" where
  "lookup_add lookup item =
     (case first_kod item of
        Some (k, JString code) \<Rightarrow> lookup(code \<mapsto> item)
      | _ \<Rightarrow> lookup)"

definition build_lookup :: "go_map list \<Rightarrow> (string \<rightharpoonup> go_map)" where
  "build_lookup dataArray = foldl lookup_add Map.empty dataArray"

definition populate_cell :: "go_lib \<Rightarrow> go_map \<Rightarrow> table_cell \<Rightarrow> table_cell" where
  "populate_cell lib data cell =
     (case map_of data (Name cell) of
        Some val \<Rightarrow> cell\<lparr>Value := formatValue lib val\<rparr>
      | None \<Rightarrow> cell)"

definition populate_row :: "go_lib \<Rightarrow> (string \<rightharpoonup> go_map) \<Rightarrow> table_row \<Rightarrow> table_row" where
  "populate_row lib lookup row =
     (case lookup (Code row) of
        None \<Rightarrow> row
      | Some data \<Rightarrow> row\<lparr>Cells := map (populate_cell lib data) (Cells row)\<rparr>)"

definition PopulateCellsFromArray ::
  "go_lib \<Rightarrow> string + go_map list \<Rightarrow> table_row list \<Rightarrow> string \<Rightarrow> table_row list \<times> string option" where
  "PopulateCellsFromArray lib unmarshalled rows jsonData =
     (if jsonData = '''' then (rows, None)
      else
        (case unmarshalled of
           Inl err \<Rightarrow> (rows, Some err)
         | Inr dataArray \<Rightarrow> (map (populate_row lib (build_lookup dataArray)) rows, None)))"

text \<open>
  \<^verbatim>\<open>
  func PopulateCellsFromObject(rows []TableRow, jsonData string) error {
      if jsonData == "" { return nil }
      var data map[string]any
      if err := json.Unmarshal([]byte(jsonData), &data); err != nil { return err }
      for i := range rows {
          row := &rows[i]
          for j := range row.Cells {
              cell := &row.Cells[j]
              if val, ok := data[cell.Name]; ok { cell.Value = formatValue(val) }
          }
      }
      return nil
  }
  \<close>
\<close>

definition PopulateCellsFromObject ::
  "go_lib \<Rightarrow> string + go_map \<Rightarrow> table_row list \<Rightarrow> string \<Rightarrow> table_row list \<times> string option" where
  "PopulateCellsFromObject lib unmarshalled rows jsonData =
     (if jsonData = '''' then (rows, None)
      else
        (case unmarshalled of
           Inl err \<Rightarrow> (rows, Some err)
         | Inr data \<Rightarrow>
             (map (\<lambda>row. row\<lparr>Cells := map (populate_cell lib data) (Cells row)\<rparr>) rows, None)))"

subsection \<open>The schema resolver\<close>

text \<open>
  Row construction of \<^verbatim>\<open>AnkietSubtableGet\<close> for the layout HORIZONTAL_STATIC_UNIQUE:
  \<^verbatim>\<open>
  for _, row := range kodyPodtabele {
      tableRow := TableRow{Title: row.Title, Code: row.Code}
      for i := range data.Table.Columns {
          column := &data.Table.Columns[i]
          cell := TableCell{ Name: column.Name, Column: column, Required: column.Required, Editable: 1 }
          for _, block := range blocks {
              if block.Column == column.Name && block.Code == row.Code { cell.Blocked = true; break }
          }
          if strings.Contains(cell.Name, "_Kod") { cell.Editable = 0; cell.Value = row.Code }
          tableRow.Cells = append(tableRow.Cells, cell)
      }
      tableRows = append(tableRows, tableRow)
  }
  \<close>
\<close>

definition static_cell :: "b_blokady list \<Rightarrow> string \<Rightarrow> table_column \<Rightarrow> table_cell" where
  "static_cell blocks code column =
     (let cell = \<lparr>Value = '''', Name = col_Name column, Required = col_Required column,
                  Editable = 1,
                  Blocked = list_ex (\<lambda>b. blk_Column b = col_Name column \<and> blk_Code b = code) blocks\<rparr>
      in if str_includes (Name cell) ''_Kod'' then cell\<lparr>Editable := 0, Value := code\<rparr> else cell)"

definition static_rows ::
  "table_column list \<Rightarrow> b_kody_podtabele list \<Rightarrow> b_blokady list \<Rightarrow> table_row list" where
  "static_rows columns kodyPodtabele blocks =
     map (\<lambda>row. \<lparr>Cells = map (static_cell blocks (kod_Code row)) columns,
                 Title = kod_Title row, Code = kod_Code row, Index = 0\<rparr>)
       kodyPodtabele"

text \<open>
  Row construction of \<^verbatim>\<open>AnkietRowGet\<close> for the dynamic layouts:
  \<^verbatim>\<open>
  tableRow := TableRow{Code: code, Index: int64(index)}
  for i := range tableColumns {
      column := &tableColumns[i]
      cell := TableCell{ Name: column.Name, Column: column, Required: column.Required, Editable: 1 }
      for _, block := range blocks {
          if block.Column == column.Name { cell.Blocked = true; break }
      }
      if strings.Contains(cell.Name, "_Kod") { cell.Editable = 0; cell.Value = code }
      if strings.Contains(cell.Name, "_Wyszczegolnienie") {
          row := app.DBManager.YQueryRowx(yearDB, "b_kody_tytul_where_kod", code)
          ...
          var wyczegolnienie string
          row.Scan(&wyczegolnienie)
          cell.Value = wyczegolnienie
      }
      tableRow.Cells = append(tableRow.Cells, cell)
  }
  \<close>
  \<open>blocks\<close> are the block records of the subtable for this code; \<open>wyczegolnienie\<close> is
  the title that the query gives for the code, the empty string when it gives none.
\<close>

definition dynamic_cell :: "b_blokady list \<Rightarrow> string \<Rightarrow> string \<Rightarrow> table_column \<Rightarrow> table_cell" where
  "dynamic_cell blocks code wyczegolnienie column =
     (let cell = \<lparr>Value = '''', Name = col_Name column, Required = col_Required column,
                  Editable = 1,
                  Blocked = list_ex (\<lambda>b. blk_Column b = col_Name column) blocks\<rparr>;
          cell1 = (if str_includes (Name cell) ''_Kod'' then cell\<lparr>Editable := 0, Value := code\<rparr>
                   else cell)
      in if str_includes (Name cell1) ''_Wyszczegolnienie'' then cell1\<lparr>Value := wyczegolnienie\<rparr>
         else cell1)"

definition dynamic_row ::
  "table_column list \<Rightarrow> b_blokady list \<Rightarrow> string \<Rightarrow> int \<Rightarrow> string \<Rightarrow> table_row" where
  "dynamic_row tableColumns blocks code index wyczegolnienie =
     \<lparr>Cells = map (dynamic_cell blocks code wyczegolnienie) tableColumns,
      Title = '''', Code = code, Index = index\<rparr>"

subsection \<open>The page handler\<close>

text \<open>
  \<^verbatim>\<open>AnkietSubtableGet\<close> from the point at which the persisted data is fetched:
  \<^verbatim>\<open>
  jsonData, err := app.DaneSelectByIdGRAndSubtable(yearDB, idGR, selectedSubtable)
  if err != nil { app.Logger.Warn("no existing data", slog.String("error", err.Error())) }
  switch data.Table.Type {
  case HORIZONTAL_DYNAMIC_DUPLICABLE, HORIZONTAL_DYNAMIC_UNIQUE:
      ... one TableRow{Title, Code} for each code ...
      data.Table.Rows = tableRows
      data.Table.Data = jsonData
  case HORIZONTAL_STATIC_UNIQUE:
      blocks, err := app.BlokadySelectBySubtable(yearDB, selectedSubtable)
      if err != nil { app.ServerError(w, r, err); return }
      ... row construction ...
      data.Table.Rows = tableRows
      if err := PopulateCellsFromArray(data.Table.Rows, jsonData); err != nil {
          app.Logger.Warn("failed to populate horizontal static data", slog.String("error", err.Error()))
      }
  case VERTICAL_STATIC_UNIQUE:
      for i := range data.Table.Columns {
          column := &data.Table.Columns[i]
          title := column.Label + " " + column.Title
          tableRow := TableRow{ Title: title,
              Cells: []TableCell{{Column: column, Editable: 1, Name: column.Name}} }
          data.Table.Rows = append(data.Table.Rows, tableRow)
      }
      if err := PopulateCellsFromObject(data.Table.Rows, jsonData); err != nil {
          app.Logger.Warn("failed to populate vertical static data", slog.String("error", err.Error()))
      }
  default:
      app.Logger.Error("not implemented table schema type", slog.String("type", data.Table.Type))
      return
  }
  app.Render(w, r, http.StatusOK, TMPL_GRID, data)
  \<close>
  The results of the database queries and of \<^verbatim>\<open>json.Unmarshal\<close> are given to the model:
  \<open>dane\<close> is the result of \<^verbatim>\<open>DaneSelectByIdGRAndSubtable\<close> (the payload, which is empty
  when nothing is stored yet, or an error), \<open>blocks\<close> that of
  \<^verbatim>\<open>BlokadySelectBySubtable\<close>. The model returns what the handler answers and what it
  logs.
\<close>

datatype log_entry = Log_warn string string | Log_error string string

datatype answer =
    Rendered "table_row list" string
  | ServerError string
  | No_answer

record db_results =
  res_columns :: "table_column list"
  res_kody :: "b_kody_podtabele list"
  res_blocks :: "string + b_blokady list"
  res_dane :: "string + string"

record unmarshal_results =
  as_array :: "string + go_map list"
  as_object :: "string + go_map"

definition vertical_rows :: "table_column list \<Rightarrow> table_row list" where
  "vertical_rows columns =
     map (\<lambda>column.
            \<lparr>Cells = [\<lparr>Value = '''', Name = col_Name column, Required = 0, Editable = 1,
                       Blocked = False\<rparr>],
             Title = col_Label column @ '' '' @ col_Title column, Code = '''', Index = 0\<rparr>)
       columns"

definition populate_warning :: "string \<Rightarrow> string option \<Rightarrow> log_entry list" where
  "populate_warning msg err = (case err of None \<Rightarrow> [] | Some e \<Rightarrow> [Log_warn msg e])"

definition AnkietSubtableGet ::
  "go_lib \<Rightarrow> string \<Rightarrow> db_results \<Rightarrow> (string \<Rightarrow> unmarshal_results) \<Rightarrow> answer \<times> log_entry list" where
  "AnkietSubtableGet lib table_schema db unmarshal =
     (let jsonData = (case res_dane db of Inl err \<Rightarrow> '''' | Inr d \<Rightarrow> d);
          log0 = (case res_dane db of Inl err \<Rightarrow> [Log_warn ''no existing data'' err] | Inr d \<Rightarrow> [])
      in if table_schema = ''HORIZONTAL_DYNAMIC_DUPLICABLE''
            \<or> table_schema = ''HORIZONTAL_DYNAMIC_UNIQUE'' then
           (Rendered
              (map (\<lambda>row. \<lparr>Cells = [], Title = kod_Title row, Code = kod_Code row, Index = 0\<rparr>)
                 (res_kody db))
              jsonData,
            log0)
         else if table_schema = ''HORIZONTAL_STATIC_UNIQUE'' then
           (case res_blocks db of
              Inl err \<Rightarrow> (ServerError err, log0)
            | Inr blocks \<Rightarrow>
                (case PopulateCellsFromArray lib (as_array (unmarshal jsonData))
                        (static_rows (res_columns db) (res_kody db) blocks) jsonData of
                   (rows, err) \<Rightarrow>
                     (Rendered rows '''',
                      log0 @ populate_warning ''failed to populate horizontal static data'' err)))
         else if table_schema = ''VERTICAL_STATIC_UNIQUE'' then
           (case PopulateCellsFromObject lib (as_object (unmarshal jsonData))
                   (vertical_rows (res_columns db)) jsonData of
              (rows, err) \<Rightarrow>
                (Rendered rows '''',
                 log0 @ populate_warning ''failed to populate vertical static data'' err))
         else (No_answer, log0 @ [Log_error ''not implemented table schema type'' table_schema]))"

subsection \<open>Sample metadata\<close>

text \<open>Three columns: the code of the row, a required number, the title of the code.\<close>

definition code_column :: table_column where
  "code_column = \<lparr>col_Name = ''Wartosc_Kod'', col_Title = ''Kod'', col_Label = ''1'', col_Required = 0\<rparr>"

definition number_column :: table_column where
  "number_column =
     \<lparr>col_Name = ''Wartosc_Liczba'', col_Title = ''Liczba'', col_Label = ''2'', col_Required = 1\<rparr>"

definition title_column :: table_column where
  "title_column =
     \<lparr>col_Name = ''Wartosc_Wyszczegolnienie'', col_Title = ''Nazwa'', col_Label = ''3'',
      col_Required = 0\<rparr>"

text \<open>A library whose formatting functions the examples do not reach.\<close>

definition unused_lib :: go_lib where
  "unused_lib = \<lparr>FormatFloat = undefined, Sprintf_v = undefined, format_beyond_int64 = undefined\<rparr>"

text \<open>
  What the database returns for a static grid of the two columns and the code
  \<^verbatim>\<open>01\<close>, with a payload; and a decoder that rejects every text.
\<close>

definition sample_db :: "string \<Rightarrow> db_results" where
  "sample_db payload =
     \<lparr>res_columns = [code_column, number_column],
      res_kody = [\<lparr>kod_Code = ''01'', kod_Title = ''Wheat''\<rparr>],
      res_blocks = Inr [], res_dane = Inr payload\<rparr>"

definition rejecting_unmarshal :: "string \<Rightarrow> unmarshal_results" where
  "rejecting_unmarshal s =
     \<lparr>as_array = Inl ''unexpected end of JSON input'',
      as_object = Inl ''unexpected end of JSON input''\<rparr>"

subsection \<open>What the cell populator is meant to do\<close>

text \<open>
  The lookup code of a payload object: the value of its first key that ends in
  \<^verbatim>\<open>_Kod\<close>, when that value is a string. The object that serves a row code: the
  last object of the payload with that lookup code.
\<close>

definition item_code :: "go_map \<Rightarrow> string option" where
  "item_code item = (case first_kod item of Some (k, JString code) \<Rightarrow> Some code | _ \<Rightarrow> None)"

definition last_with_code :: "go_map list \<Rightarrow> string \<Rightarrow> go_map option" where
  "last_with_code dataArray code =
     (case filter (\<lambda>item. item_code item = Some code) dataArray of
        [] \<Rightarrow> None
      | x # xs \<Rightarrow> Some (last (x # xs)))"

text \<open>
  The payload \<^verbatim>\<open>[{"Wartosc_Kod":"01","Wartosc_Liczba":12}]\<close> and a payload in which
  a second object has the same code, as text and as decoded.
\<close>

definition one_object_text :: string where
  \<open>one_object_text = ''[{"Wartosc_Kod":"01","Wartosc_Liczba":12}]''\<close>

definition one_object :: "go_map list" where
  "one_object = [[(''Wartosc_Kod'', JString ''01''), (''Wartosc_Liczba'', JNumber 12)]]"

definition same_code_twice_text :: string where
  \<open>same_code_twice_text = ''[{"Wartosc_Kod":"01","Wartosc_Liczba":12},{"Wartosc_Kod":"01"}]''\<close>

definition same_code_twice :: "go_map list" where
  "same_code_twice =
     [[(''Wartosc_Kod'', JString ''01''), (''Wartosc_Liczba'', JNumber 12)],
      [(''Wartosc_Kod'', JString ''01'')]]"

definition resolved_rows :: "table_row list" where
  "resolved_rows =
     static_rows [code_column, number_column] [\<lparr>kod_Code = ''01'', kod_Title = ''Wheat''\<rparr>] []"

section \<open>The number format codec\<close>

lemma digits_of_nat_0: "digits_of_nat 0 = ''0''"
  by (simp add: digits_of_nat.simps)

lemma floor_rat_numeral: "\<lfloor>(numeral a / numeral b :: rat)\<rfloor> = numeral a div numeral b"
  using floor_divide_of_int_eq [of "numeral a" "numeral b", where ?'a = rat] by simp

lemma bit_length_numeral:
  "bit_length 0 = 0"
  "bit_length (Suc 0) = 1"
  "bit_length (numeral (Num.Bit0 k)) = Suc (bit_length (numeral k))"
  "bit_length (numeral (Num.Bit1 k)) = Suc (bit_length (numeral k))"
  by (simp_all add: bit_length.simps [of 0] bit_length.simps [of "Suc 0"]
        bit_length.simps [of "numeral (Num.Bit0 k)"] bit_length.simps [of "numeral (Num.Bit1 k)"])

text \<open>
  The length in bits brackets a positive number between two powers of two, and every
  natural number below \<open>2^53\<close> is a double of its own.
\<close>

lemma bit_length_bounds: "0 < n \<Longrightarrow> 2 ^ (bit_length n - 1) \<le> n \<and> n < 2 ^ bit_length n"
proof (induction n rule: bit_length.induct)
  case (1 n)
  show ?case
  proof (cases "n div 2 = 0")
    case True
    with 1 have "n = 1" by auto
    then show ?thesis by (simp add: bit_length.simps [of "Suc 0"] bit_length.simps [of 0])
  next
    case False
    with 1 have ih: "2 ^ (bit_length (n div 2) - 1) \<le> n div 2" "n div 2 < 2 ^ bit_length (n div 2)"
      by auto
    from False have pos: "0 < bit_length (n div 2)" by (simp add: bit_length.simps [of "n div 2"])
    have bl: "bit_length n = Suc (bit_length (n div 2))"
      using 1 by (simp add: bit_length.simps [of n])
    from pos obtain k where k: "bit_length (n div 2) = Suc k" by (cases "bit_length (n div 2)") auto
    from ih k have "2 ^ k \<le> n div 2" "n div 2 < 2 ^ Suc k" by simp_all
    then have "2 * 2 ^ k \<le> n" "n < 2 * 2 ^ Suc k" by auto
    with bl k show ?thesis by simp
  qed
qed

lemma round_half_even_int: "round_half_even (of_int k) = k"
  by (simp add: round_half_even_def)

lemma nearest_double_nat:
  assumes "n < 2 ^ 53"
  shows "nearest_double (of_nat n) = Num (of_nat n)"
proof (cases "n = 0")
  case True
  then show ?thesis by (simp add: nearest_double_def)
next
  case False
  define b where "b = bit_length n"
  from False have pos: "0 < n" by simp
  from bit_length_bounds [OF pos] have lo: "2 ^ (b - 1) \<le> n" and hi: "n < 2 ^ b"
    by (simp_all add: b_def)
  have b53: "b \<le> 53"
  proof (rule ccontr)
    assume "\<not> b \<le> 53"
    then have "53 \<le> b - 1" by simp
    then have "(2::nat) ^ 53 \<le> 2 ^ (b - 1)" by (rule power_increasing) simp
    with lo assms show False by simp
  qed
  have b0: "0 < b" using hi pos by (cases b) auto
  have fl: "floor_log2 (of_nat n) = int b - 1"
    using pos by (simp add: floor_log2_def b_def)
  define k where "k = 53 - b"
  have p: "max (floor_log2 (of_nat n :: rat) - 52) (- 1074) = - int k"
    using b53 b0 by (simp add: fl k_def)
  have sc: "scale2 (of_nat n) (int k) = of_int (int n * 2 ^ k)"
    by (simp add: scale2_def)
  have unscale: "scale2 (of_int (int n * 2 ^ k)) (- int k) = of_nat n"
    by (cases "k = 0") (simp_all add: scale2_def)
  have small: "(of_nat n :: rat) < 2 ^ 1024"
  proof -
    have "n < 2 ^ 1024" using assms by (rule less_trans) simp
    then have "(of_nat n :: rat) < of_nat (2 ^ 1024)" by (simp only: of_nat_less_iff)
    then show ?thesis by simp
  qed
  have nz: "int n * 2 ^ k \<noteq> 0" using pos by simp
  show ?thesis
    using pos small nz
    by (simp add: nearest_double_def Let_def p sc unscale round_half_even_int del: of_int_mult of_int_power)
qed

lemmas double_eval = nearest_double_def floor_log2_def bit_length_numeral round_half_even_def
  scale2_def floor_rat_numeral Let_def


lemma nearest_double_5: "nearest_double 5 = Num 5"
  by (simp add: double_eval)

lemma nearest_double_25_2: "nearest_double (25 / 2) = Num (25 / 2)"
  by (simp add: double_eval)

text \<open>
  Rounding at work: \<open>2^53 + 1\<close> is not a double and is read as \<open>2^53\<close>; the literal
  \<^verbatim>\<open>1.005\<close> is read as a double just below it, which \<^verbatim>\<open>toFixed(2)\<close> renders as
  \<^verbatim>\<open>1.00\<close>.
\<close>

lemma nearest_double_beyond_precision:
  "nearest_double 9007199254740993 = Num 9007199254740992"
  "nearest_double 9007199254740992 = Num 9007199254740992"
  by (simp_all add: double_eval)

lemma nearest_double_1005: "nearest_double (201 / 200) = Num (1131529406376837 / 1125899906842624)"
  by (simp add: double_eval)

lemma digits_of_nat_100: "digits_of_nat 100 = ''100''"
  by (simp add: digits_of_nat.simps)

lemma parse_and_render_1005:
  "number_value_parse ''1,005'' = Some (Num (1131529406376837 / 1125899906842624))
   \<and> toFixed (Num (1131529406376837 / 1125899906842624)) 2 = Inr ''1.00''"
  by (simp add: number_value_parse_def parseFloat_def is_space_def is_digit_def
        nat_of_digits_def exponent_part_def is_nan_def digit_value_def nearest_double_1005
        fixed_digits_def floor_rat_numeral digits_of_nat_100)

lemma digits_of_nat_1250: "digits_of_nat 1250 = ''1250''"
  by (simp add: digits_of_nat.simps)

lemma number_format_parse_two_decimals:
  "number_format_parse ''###0,00'' = \<lparr>has_spaces = False, decimals = 2\<rparr>"
  by (simp add: number_format_parse_def split_second_def)

text \<open>
  An ordinary value survives the round trip: 12.5 is rendered as \<^verbatim>\<open>12,50\<close>, read
  back as 12.5 and rendered as \<^verbatim>\<open>12,50\<close> again.
\<close>

lemma number_format_round_trip_example:
  "number_format_value (Num (25 / 2)) (number_format_parse ''###0,00'') = Inr ''12,50''
   \<and> number_value_parse ''12,50'' = Some (Num (25 / 2))"
  by (simp add: number_format_parse_two_decimals number_format_value_def fixed_digits_def
        floor_rat_numeral digits_of_nat_1250 number_value_parse_def parseFloat_def is_space_def is_digit_def
        nat_of_digits_def exponent_part_def is_nan_def digit_value_def nearest_double_25_2)

text \<open>
  Claim C1 at the value \<open>-1/512 = -0.001953125\<close> under the mask \<^verbatim>\<open>###0,00\<close>.
  \<^verbatim>\<open>toFixed\<close> keeps the sign of a negative value that rounds to zero, so the value
  is rendered as \<^verbatim>\<open>-0,00\<close>; that text is read back as the negative zero, which
  \<^verbatim>\<open>toFixed\<close> renders without a sign: the second rendering is \<^verbatim>\<open>0,00\<close>.
\<close>

theorem number_format_round_trip_negative_zero:
  "number_format_value (Num (- 1 / 512)) (number_format_parse ''###0,00'') = Inr ''-0,00''
   \<and> number_value_parse ''-0,00'' = Some Neg_zero
   \<and> number_format_value Neg_zero (number_format_parse ''###0,00'') = Inr ''0,00''"
  by (simp add: number_format_parse_two_decimals number_format_value_def fixed_digits_def
        digits_of_nat_0 number_value_parse_def parseFloat_def is_space_def is_digit_def
        nat_of_digits_def exponent_part_def is_nan_def digit_value_def)

section \<open>The save gate\<close>

lemma remaining_seconds:
  fixes d :: int
  shows "1000 * (\<lceil>(of_int d :: rat) / 1000\<rceil> - 1) < d \<and> d \<le> 1000 * \<lceil>(of_int d :: rat) / 1000\<rceil>"
proof -
  define r where "r = \<lceil>(of_int d :: rat) / 1000\<rceil>"
  have "(of_int r :: rat) - 1 < of_int d / 1000" "(of_int d :: rat) / 1000 \<le> of_int r"
    unfolding r_def by linarith+
  then have "(of_int (1000 * (r - 1)) :: rat) < of_int d" "(of_int d :: rat) \<le> of_int (1000 * r)"
    by simp_all
  then have "1000 * (r - 1) < d" "d \<le> 1000 * r"
    by (simp_all only: of_int_less_iff of_int_le_iff)
  then show ?thesis unfolding r_def by simp
qed

text \<open>
  Claim C2, as the code has it. A call of \<open>table_save\<close> while a save is in flight
  returns false at once, with no toast; a call at a moment when less than 3000 ms
  have passed since the last successful save returns false with one warning toast
  that states the remaining wait in whole seconds, rounded up. In both cases no
  network call is issued and the state (markup, \<open>last_save_time\<close>, \<open>pending_save\<close>) is
  the one before the call.
\<close>

theorem table_save_rejects:
  "(pending_save state \<longrightarrow> table_save_start state now = Returned False state [])
   \<and> (\<not> pending_save state \<and> now - last_save_time state < SAVE_COOLDOWN_MS \<longrightarrow>
        (\<exists>remaining.
           table_save_start state now = Returned False state [(Wait_seconds remaining, Toast_warning)]
           \<and> 1000 * (remaining - 1) < SAVE_COOLDOWN_MS - (now - last_save_time state)
           \<and> SAVE_COOLDOWN_MS - (now - last_save_time state) \<le> 1000 * remaining))
   \<and> (pending_save state \<or> now - last_save_time state < SAVE_COOLDOWN_MS \<longrightarrow>
        step_requests (table_save_start state now) = [])"
  using remaining_seconds [of "SAVE_COOLDOWN_MS - (now - last_save_time state)"]
  by (auto simp: table_save_start_def Let_def)

theorem table_save_rejects_witness:
  "table_save_start (saved_state\<lparr>pending_save := True\<rparr>) 9000
     = Returned False (saved_state\<lparr>pending_save := True\<rparr>) []
   \<and> table_save_start saved_state 3999 = Returned False saved_state [(Wait_seconds 1, Toast_warning)]
   \<and> step_requests (table_save_start saved_state 3999) = []"
proof -
  have p: "\<not> pending_save saved_state \<and> 3999 - last_save_time saved_state < SAVE_COOLDOWN_MS"
    by (simp add: saved_state_def plain_state_def SAVE_COOLDOWN_MS_def)
  from table_save_rejects [of saved_state 3999] p obtain remaining where
    r: "table_save_start saved_state 3999
          = Returned False saved_state [(Wait_seconds remaining, Toast_warning)]"
       "1000 * (remaining - 1) < SAVE_COOLDOWN_MS - (3999 - last_save_time saved_state)"
       "SAVE_COOLDOWN_MS - (3999 - last_save_time saved_state) \<le> 1000 * remaining"
    by blast
  from r(2,3) have "remaining = 1"
    by (simp add: saved_state_def plain_state_def SAVE_COOLDOWN_MS_def)
  with r(1) show ?thesis
    using table_save_rejects [of "saved_state\<lparr>pending_save := True\<rparr>" 9000]
    by simp
qed

text \<open>
  The claim as stated takes in the moment at which exactly 3000 ms have passed. There
  the gate is open: the row is validated and serialized and the request goes out.
\<close>

theorem table_save_at_cooldown_counterexample:
  "4000 - last_save_time saved_state = SAVE_COOLDOWN_MS
   \<and> \<not> pending_save saved_state
   \<and> step_requests (table_save_start saved_state 4000)
       = [\<lparr>req_url = ''/t/s/'', req_method = ''POST'',
           req_body = Some (Horizontal_payload [[(''X'', JS_number (Num 5))]])\<rparr>]"
  by (simp add: saved_state_def plain_state_def plain_cell_def plain_input_def
        SAVE_COOLDOWN_MS_def table_save_start_def table_validate_all_def
        all_row_indices_get_def option_list_def row_cells_get_def row_cells_validate_def
        validate_cell_def validate_number_required_def validate_number_value_def
        is_required_def trim_def is_space_def string_is_blank_def number_value_parse_def
        parseFloat_def is_digit_def is_nan_def nat_of_digits_def digit_value_def
        exponent_part_def nearest_double_5 dataset_bound_def mark_input_def input_clear_error_def
        validation_touches_def table_serialize_def serialize_row_def serialize_cell_def
        put_number_def enum_values_def multi_values_def payload_empty_def)

section \<open>Row validation\<close>

lemma all_dropWhile: "(\<forall>x\<in>set (dropWhile P s). P x) \<longleftrightarrow> (\<forall>x\<in>set s. P x)"
  by (induction s) auto

lemma trim_empty_iff: "trim s = '''' \<longleftrightarrow> whitespace_only s"
  unfolding trim_def whitespace_only_def
  by (simp add: dropWhile_eq_Nil_conv list_all_iff all_dropWhile)

lemma inputs_have_data_iff:
  "inputs_have_data is
   = (\<not> list_all (\<lambda>i. whitespace_only (in_value i)) (filter (\<lambda>i. \<not> in_readonly i) is))"
  by (induction "is") (auto simp: trim_empty_iff)

lemma enums_have_data_iff:
  "enums_have_data es
   = (\<not> list_all (\<lambda>i. whitespace_only (in_value i))
          (concat (map (\<lambda>e. option_list (enum_value e))
                     (filter (\<lambda>e. \<not> visible_readonly e) es))))"
  by (induction es) (auto simp: trim_empty_iff option_list_def split: option.splits)

lemma multis_have_data_iff:
  "multis_have_data ms
   = (\<not> list_all (\<lambda>i. whitespace_only (in_value i))
          (concat (map (\<lambda>m. option_list (multi_value m)) ms)))"
  by (induction ms) (auto simp: trim_empty_iff option_list_def split: option.splits)

lemma row_cells_has_data_iff: "row_cells_has_data cells = (\<not> row_is_blank cells)"
  by (induction cells)
     (auto simp: row_is_blank_def data_fields_def inputs_have_data_iff enums_have_data_iff
        multis_have_data_iff)






















text \<open>
  The bounds are compared as doubles: \<open>2^53 + 1\<close> under an upper bound of \<open>2^53\<close> is
  read as \<open>2^53\<close> and is accepted.
\<close>

lemma beyond_precision_row_valid:
  "row_cells_validate beyond_precision_row = Inr (True, beyond_precision_row)"
  by (simp add: beyond_precision_row_def plain_cell_def plain_input_def row_cells_validate_def
        validate_cell_def validate_number_required_def validate_number_value_def
        is_required_def trim_def is_space_def string_is_blank_def number_value_parse_def
        parseFloat_def is_digit_def is_nan_def nat_of_digits_def digit_value_def
        exponent_part_def nearest_double_beyond_precision dataset_bound_def truthy_def
        mark_input_def input_clear_error_def validation_touches_def)
section \<open>The cell populator\<close>

lemma lookup_add_apply:
  "lookup_add lookup item code = (if item_code item = Some code then Some item else lookup code)"
  by (auto simp: lookup_add_def item_code_def split: option.splits prod.splits json.splits)

lemma last_of_nonempty:
  "ys \<noteq> [] \<Longrightarrow> (case ys of [] \<Rightarrow> None | x # xs \<Rightarrow> Some (last (x # xs))) = Some (last ys)"
  by (cases ys) auto

lemma foldl_lookup_add:
  "foldl lookup_add lookup dataArray code
   = (case last_with_code dataArray code of None \<Rightarrow> lookup code | Some item \<Rightarrow> Some item)"
proof (induction dataArray arbitrary: lookup rule: rev_induct)
  case Nil
  then show ?case by (simp add: last_with_code_def)
next
  case (snoc item dataArray)
  show ?case
  proof (cases "item_code item = Some code")
    case True
    then have "filter (\<lambda>item. item_code item = Some code) (dataArray @ [item])
               = filter (\<lambda>item. item_code item = Some code) dataArray @ [item]"
      by simp
    then have "last_with_code (dataArray @ [item]) code = Some item"
      unfolding last_with_code_def by (simp add: last_of_nonempty)
    with True show ?thesis by (simp add: lookup_add_apply)
  next
    case False
    then have "last_with_code (dataArray @ [item]) code = last_with_code dataArray code"
      by (simp add: last_with_code_def)
    with False snoc show ?thesis by (simp add: lookup_add_apply)
  qed
qed

lemma build_lookup_last: "build_lookup dataArray code = last_with_code dataArray code"
  by (simp add: build_lookup_def foldl_lookup_add split: option.splits)

lemma digits_of_nat_digits: "set (digits_of_nat n) \<subseteq> set ''0123456789''"
proof (induction n rule: digits_of_nat.induct)
  case (1 n)
  define table where "table = ''0123456789''"
  have len: "length table = 10" by (simp add: table_def)
  have d: "set [table ! k] \<subseteq> set table" if "k < 10" for k
    using that len nth_mem [of k table] by simp
  have unfold: "digits_of_nat n
     = (if n < 10 then [table ! n] else digits_of_nat (n div 10) @ [table ! (n mod 10)])"
    unfolding table_def by (rule digits_of_nat.simps)
  show ?case
  proof (cases "n < 10")
    case True
    with unfold have "digits_of_nat n = [table ! n]" by simp
    with d [OF True] show ?thesis by (simp only: table_def)
  next
    case False
    with unfold have "digits_of_nat n = digits_of_nat (n div 10) @ [table ! (n mod 10)]"
      by simp
    moreover have "set [table ! (n mod 10)] \<subseteq> set table" by (rule d) simp
    moreover from False 1 have "set (digits_of_nat (n div 10)) \<subseteq> set ''0123456789''"
      by simp
    then have "set (digits_of_nat (n div 10)) \<subseteq> set table"
      by (simp only: table_def)
    ultimately show ?thesis by (simp only: table_def set_append Un_subset_iff)
  qed
qed

lemma FormatInt_chars: "set (FormatInt i) \<subseteq> set ''-0123456789''"
proof -
  define D where "D = set ''-0123456789''"
  have "set ''0123456789'' \<subseteq> D" unfolding D_def by simp
  with digits_of_nat_digits have a: "set (digits_of_nat (nat \<bar>i\<bar>)) \<subseteq> D"
    by (rule order_trans)
  have b: "set ''-'' \<subseteq> D" unfolding D_def by simp
  have "set (FormatInt i) \<subseteq> D"
    unfolding FormatInt_def using a b by (cases "i < 0") simp_all
  then show ?thesis unfolding D_def .
qed

lemma int64_of_of_int: "int64_of (of_int i) = i"
  by (simp add: int64_of_def)

text \<open>
  Claim C4, as the code has it. For a payload that decodes to a slice of objects the
  populator serves each row from the last object of the payload whose lookup code is
  the code of the row: the value of the first key of the object that ends in
  \<^verbatim>\<open>_Kod\<close>, in the order in which the map is visited, provided that value is a
  string. A row without such an object is left as it is. In a served row each cell
  whose name is a key of the object gets that key's value through \<open>formatValue\<close>, and
  each other cell is left as it is; no cell is added or removed. \<open>formatValue\<close>
  passes a string through unchanged and renders a whole number within the range of
  int64 by its decimal digits, with a minus sign when negative and without a
  fractional part.
\<close>

theorem populate_cells_from_array:
  "(jsonData \<noteq> '''' \<longrightarrow>
      PopulateCellsFromArray lib (Inr dataArray) rows jsonData
        = (map (\<lambda>row.
                  case last_with_code dataArray (Code row) of
                    None \<Rightarrow> row
                  | Some data \<Rightarrow>
                      row\<lparr>Cells :=
                            map (\<lambda>cell.
                                   case map_of data (Name cell) of
                                     None \<Rightarrow> cell
                                   | Some val \<Rightarrow> cell\<lparr>Value := formatValue lib val\<rparr>)
                              (Cells row)\<rparr>)
             rows,
           None))
   \<and> formatValue lib (JString s) = s
   \<and> (- (2 ^ 63) \<le> i \<and> i < 2 ^ 63 \<longrightarrow>
        formatValue lib (JNumber (of_int i)) = FormatInt i
        \<and> set (FormatInt i) \<subseteq> set ''-0123456789'')"
proof -
  have "populate_row lib (build_lookup dataArray)
        = (\<lambda>row. case last_with_code dataArray (Code row) of
                    None \<Rightarrow> row
                  | Some data \<Rightarrow>
                      row\<lparr>Cells :=
                            map (\<lambda>cell.
                                   case map_of data (Name cell) of
                                     None \<Rightarrow> cell
                                   | Some val \<Rightarrow> cell\<lparr>Value := formatValue lib val\<rparr>)
                              (Cells row)\<rparr>)"
    by (rule ext)
       (simp add: populate_row_def build_lookup_last populate_cell_def [abs_def]
          split: option.splits)
  then show ?thesis
    using FormatInt_chars [of i]
    by (simp add: PopulateCellsFromArray_def formatValue_def in_int64_range_def int64_of_of_int)
qed

lemma digits_of_nat_12: "digits_of_nat 12 = ''12''"
  by (simp add: digits_of_nat.simps)

theorem populate_cells_from_array_witness:
  "PopulateCellsFromArray unused_lib (Inr one_object) resolved_rows one_object_text
     = ([\<lparr>Cells = [\<lparr>Value = ''01'', Name = ''Wartosc_Kod'', Required = 0, Editable = 0,
                     Blocked = False\<rparr>,
                    \<lparr>Value = ''12'', Name = ''Wartosc_Liczba'', Required = 1, Editable = 1,
                     Blocked = False\<rparr>],
           Title = ''Wheat'', Code = ''01'', Index = 0\<rparr>],
        None)"
proof -
  have t: "one_object_text \<noteq> ''''"
    by (simp add: one_object_text_def)
  have l: "last_with_code one_object ''01'' = Some (hd one_object)"
    by (simp add: last_with_code_def one_object_def item_code_def first_kod_def ends_with_def)
  have f: "formatValue unused_lib (JNumber 12) = ''12''"
    using populate_cells_from_array [of "''x''" unused_lib "[]" "[]" "''''" 12]
    by (simp add: FormatInt_def digits_of_nat_12)
  from populate_cells_from_array [of one_object_text unused_lib one_object resolved_rows "''''" 0] t
  have "PopulateCellsFromArray unused_lib (Inr one_object) resolved_rows one_object_text
        = (map (\<lambda>row.
                  case last_with_code one_object (Code row) of
                    None \<Rightarrow> row
                  | Some data \<Rightarrow>
                      row\<lparr>Cells :=
                            map (\<lambda>cell.
                                   case map_of data (Name cell) of
                                     None \<Rightarrow> cell
                                   | Some val \<Rightarrow> cell\<lparr>Value := formatValue unused_lib val\<rparr>)
                              (Cells row)\<rparr>)
             resolved_rows,
           None)"
    by blast
  then show ?thesis
    using l f
    by (simp add: resolved_rows_def static_rows_def static_cell_def code_column_def
          number_column_def one_object_def formatValue_def)
qed

text \<open>
  The claim as stated has every object of the payload copied into the rows of its
  code. The lookup keeps one object for a code, the last: the number of the first
  object below reaches no cell, although the code of that object is the code of the
  row and its key is the name of a cell.
\<close>

theorem same_code_twice_counterexample:
  "item_code (same_code_twice ! 0) = Some (Code (resolved_rows ! 0))
   \<and> map_of (same_code_twice ! 0) (Name (Cells (resolved_rows ! 0) ! 1)) = Some (JNumber 12)
   \<and> Value (Cells (resolved_rows ! 0) ! 1) = ''''
   \<and> PopulateCellsFromArray unused_lib (Inr same_code_twice) resolved_rows same_code_twice_text
       = (resolved_rows, None)"
  by (simp add: same_code_twice_def same_code_twice_text_def resolved_rows_def static_rows_def
        static_cell_def code_column_def number_column_def item_code_def first_kod_def
        ends_with_def PopulateCellsFromArray_def populate_row_def build_lookup_def
        lookup_add_def populate_cell_def formatValue_def)

section \<open>Row construction\<close>

lemma starts_with_iff: "starts_with s p \<longleftrightarrow> (\<exists>r. s = p @ r)"
  by (induction s p rule: starts_with.induct) auto

lemma str_includes_iff: "str_includes s p \<longleftrightarrow> (\<exists>a b. s = a @ p @ b)"
proof (induction s)
  case Nil
  then show ?case by auto
next
  case (Cons c cs)
  show ?case
  proof
    assume "str_includes (c # cs) p"
    then consider "starts_with (c # cs) p" | "str_includes cs p" by auto
    then show "\<exists>a b. c # cs = a @ p @ b"
    proof cases
      case 1
      then obtain r where "c # cs = p @ r" by (auto simp: starts_with_iff)
      then have "c # cs = [] @ p @ r" by simp
      then show ?thesis by blast
    next
      case 2
      with Cons obtain a b where "cs = a @ p @ b" by auto
      then have "c # cs = (c # a) @ p @ b" by simp
      then show ?thesis by blast
    qed
  next
    assume "\<exists>a b. c # cs = a @ p @ b"
    then obtain a b where ab: "c # cs = a @ p @ b" by auto
    show "str_includes (c # cs) p"
    proof (cases a)
      case Nil
      with ab have "starts_with (c # cs) p" by (auto simp: starts_with_iff)
      then show ?thesis by simp
    next
      case (Cons x a')
      with ab have "cs = a' @ p @ b" by simp
      with Cons.IH have "str_includes cs p" by auto
      then show ?thesis by simp
    qed
  qed
qed

lemma ends_with_includes: "ends_with s p \<Longrightarrow> str_includes s p"
proof -
  assume "ends_with s p"
  then obtain r where "rev s = rev p @ r" by (auto simp: ends_with_def starts_with_iff)
  then have "s = rev r @ p" by (metis rev_append rev_rev_ident)
  then have "s = rev r @ p @ []" by simp
  then show ?thesis unfolding str_includes_iff by blast
qed

text \<open>
  Claim C5, as the code has it. In both row constructions the cells mirror the
  columns. A cell whose name ends in \<^verbatim>\<open>_Kod\<close> is not editable and, in the static
  construction, holds the code of its row; a cell whose name does not contain
  \<^verbatim>\<open>_Kod\<close> is editable and, in the static construction, empty. In the construction
  of a dynamic row (\<^verbatim>\<open>AnkietRowGet\<close>) a cell whose name contains
  \<^verbatim>\<open>_Wyszczegolnienie\<close> holds the title of the code; any other cell holds the code
  when its name ends in \<^verbatim>\<open>_Kod\<close> and is empty when its name does not contain
  \<^verbatim>\<open>_Kod\<close>.
\<close>

theorem code_cells_not_editable:
  "map Name (map (static_cell blocks code) columns) = map col_Name columns
   \<and> map Name (Cells (dynamic_row columns blocks code index title)) = map col_Name columns
   \<and> (ends_with (col_Name column) ''_Kod'' \<longrightarrow>
        Editable (static_cell blocks code column) = 0
        \<and> Value (static_cell blocks code column) = code
        \<and> Editable (dynamic_cell blocks code title column) = 0)
   \<and> (\<not> str_includes (col_Name column) ''_Kod'' \<longrightarrow>
        Editable (static_cell blocks code column) = 1
        \<and> Value (static_cell blocks code column) = ''''
        \<and> Editable (dynamic_cell blocks code title column) = 1)
   \<and> (str_includes (col_Name column) ''_Wyszczegolnienie'' \<longrightarrow>
        Value (dynamic_cell blocks code title column) = title)
   \<and> (\<not> str_includes (col_Name column) ''_Wyszczegolnienie'' \<longrightarrow>
        (ends_with (col_Name column) ''_Kod'' \<longrightarrow>
           Value (dynamic_cell blocks code title column) = code)
        \<and> (\<not> str_includes (col_Name column) ''_Kod'' \<longrightarrow>
             Value (dynamic_cell blocks code title column) = ''''))"
proof -
  have names: "Name (static_cell blocks code c) = col_Name c"
              "Name (dynamic_cell blocks code title c) = col_Name c" for c
    by (simp_all add: static_cell_def dynamic_cell_def Let_def)
  have "map Name (map (static_cell blocks code) columns) = map col_Name columns"
       "map Name (Cells (dynamic_row columns blocks code index title)) = map col_Name columns"
    by (simp_all add: dynamic_row_def names comp_def)
  moreover have "ends_with (col_Name column) ''_Kod'' \<longrightarrow>
        Editable (static_cell blocks code column) = 0
        \<and> Value (static_cell blocks code column) = code
        \<and> Editable (dynamic_cell blocks code title column) = 0"
    using ends_with_includes [of "col_Name column" "''_Kod''"]
    by (simp add: static_cell_def dynamic_cell_def Let_def)
  moreover have "\<not> str_includes (col_Name column) ''_Kod'' \<longrightarrow>
        Editable (static_cell blocks code column) = 1
        \<and> Value (static_cell blocks code column) = ''''
        \<and> Editable (dynamic_cell blocks code title column) = 1"
    by (simp add: static_cell_def dynamic_cell_def Let_def)
  moreover have "str_includes (col_Name column) ''_Wyszczegolnienie'' \<longrightarrow>
        Value (dynamic_cell blocks code title column) = title"
    by (simp add: dynamic_cell_def Let_def)
  moreover have "\<not> str_includes (col_Name column) ''_Wyszczegolnienie'' \<longrightarrow>
        (ends_with (col_Name column) ''_Kod'' \<longrightarrow>
           Value (dynamic_cell blocks code title column) = code)
        \<and> (\<not> str_includes (col_Name column) ''_Kod'' \<longrightarrow>
             Value (dynamic_cell blocks code title column) = '''')"
    using ends_with_includes [of "col_Name column" "''_Kod''"]
    by (simp add: dynamic_cell_def Let_def)
  ultimately show ?thesis by blast
qed

theorem code_cells_not_editable_witness:
  "static_rows [code_column, number_column] [\<lparr>kod_Code = ''01'', kod_Title = ''Wheat''\<rparr>] []
     = [\<lparr>Cells = [\<lparr>Value = ''01'', Name = ''Wartosc_Kod'', Required = 0, Editable = 0, Blocked = False\<rparr>,
                  \<lparr>Value = '''', Name = ''Wartosc_Liczba'', Required = 1, Editable = 1, Blocked = False\<rparr>],
         Title = ''Wheat'', Code = ''01'', Index = 0\<rparr>]"
proof -
  have e: "ends_with (col_Name code_column) ''_Kod''"
    by (simp add: code_column_def ends_with_def)
  have n: "\<not> str_includes (col_Name number_column) ''_Kod''"
    by (simp add: number_column_def)
  from code_cells_not_editable [of "[]" "''01''" "[]" 0 "''''" code_column] e
  have c1: "Editable (static_cell [] ''01'' code_column) = 0"
           "Value (static_cell [] ''01'' code_column) = ''01''" by simp_all
  from code_cells_not_editable [of "[]" "''01''" "[]" 0 "''''" number_column] n
  have c2: "Editable (static_cell [] ''01'' number_column) = 1"
           "Value (static_cell [] ''01'' number_column) = ''''" by simp_all
  have rest: "Name (static_cell [] ''01'' code_column) = ''Wartosc_Kod''"
    "Required (static_cell [] ''01'' code_column) = 0"
    "Blocked (static_cell [] ''01'' code_column) = False"
    "Name (static_cell [] ''01'' number_column) = ''Wartosc_Liczba''"
    "Required (static_cell [] ''01'' number_column) = 1"
    "Blocked (static_cell [] ''01'' number_column) = False"
    by (simp_all add: static_cell_def Let_def code_column_def number_column_def)
  have "static_cell [] ''01'' code_column
        = \<lparr>Value = ''01'', Name = ''Wartosc_Kod'', Required = 0, Editable = 0, Blocked = False\<rparr>"
       "static_cell [] ''01'' number_column
        = \<lparr>Value = '''', Name = ''Wartosc_Liczba'', Required = 1, Editable = 1, Blocked = False\<rparr>"
    using c1 c2 rest by (auto intro: table_cell.equality)
  then show ?thesis by (simp add: static_rows_def)
qed

text \<open>
  The claim as stated lets every cell that is not a code cell start empty. The cell
  of the column \<^verbatim>\<open>Wartosc_Wyszczegolnienie\<close> of a dynamic row starts with the title
  of the code.
\<close>

theorem title_cell_counterexample:
  "\<not> ends_with (col_Name title_column) ''_Kod''
   \<and> Cells (dynamic_row [title_column] [] ''01'' 0 ''Wheat'')
       = [\<lparr>Value = ''Wheat'', Name = ''Wartosc_Wyszczegolnienie'', Required = 0, Editable = 1,
           Blocked = False\<rparr>]"
  by (simp add: title_column_def ends_with_def dynamic_row_def dynamic_cell_def)

section \<open>Malformed and empty payloads\<close>

text \<open>
  Claim C6, as the code has it. For an empty payload both populators return the rows
  as they are, with no error, and the handler renders the page without a warning. For
  a payload that \<^verbatim>\<open>json.Unmarshal\<close> rejects both populators return the rows as they
  are, with the error; the handler logs it as one warning and renders the page with
  the unpopulated rows.
\<close>

theorem populate_nothing_on_bad_payload:
  "(jsonData = '''' \<longrightarrow>
      PopulateCellsFromArray lib ua rows jsonData = (rows, None)
      \<and> PopulateCellsFromObject lib uo rows jsonData = (rows, None))
   \<and> (jsonData \<noteq> '''' \<longrightarrow>
        PopulateCellsFromArray lib (Inl err) rows jsonData = (rows, Some err)
        \<and> PopulateCellsFromObject lib (Inl err) rows jsonData = (rows, Some err))
   \<and> (res_dane db = Inr jsonData \<and> res_blocks db = Inr blocks \<longrightarrow>
        (jsonData = '''' \<longrightarrow>
           AnkietSubtableGet lib ''HORIZONTAL_STATIC_UNIQUE'' db unmarshal
             = (Rendered (static_rows (res_columns db) (res_kody db) blocks) '''', [])
           \<and> AnkietSubtableGet lib ''VERTICAL_STATIC_UNIQUE'' db unmarshal
               = (Rendered (vertical_rows (res_columns db)) '''', []))
        \<and> (jsonData \<noteq> '''' \<and> as_array (unmarshal jsonData) = Inl err \<longrightarrow>
             AnkietSubtableGet lib ''HORIZONTAL_STATIC_UNIQUE'' db unmarshal
               = (Rendered (static_rows (res_columns db) (res_kody db) blocks) '''',
                  [Log_warn ''failed to populate horizontal static data'' err]))
        \<and> (jsonData \<noteq> '''' \<and> as_object (unmarshal jsonData) = Inl err \<longrightarrow>
             AnkietSubtableGet lib ''VERTICAL_STATIC_UNIQUE'' db unmarshal
               = (Rendered (vertical_rows (res_columns db)) '''',
                  [Log_warn ''failed to populate vertical static data'' err])))"
  by (simp add: PopulateCellsFromArray_def PopulateCellsFromObject_def AnkietSubtableGet_def
        populate_warning_def)

theorem populate_nothing_on_bad_payload_witness:
  "AnkietSubtableGet unused_lib ''HORIZONTAL_STATIC_UNIQUE'' (sample_db ''[{'') rejecting_unmarshal
     = (Rendered (static_rows [code_column, number_column]
                    [\<lparr>kod_Code = ''01'', kod_Title = ''Wheat''\<rparr>] []) '''',
        [Log_warn ''failed to populate horizontal static data'' ''unexpected end of JSON input''])"
  using populate_nothing_on_bad_payload
          [of "''[{''" unused_lib "Inl ''''" "[]" "Inl ''''" "''unexpected end of JSON input''"
              "sample_db ''[{''" "[]" rejecting_unmarshal]
  by (simp add: sample_db_def rejecting_unmarshal_def)

text \<open>
  The claim as stated has the handler log a warning for an empty payload too. An
  empty payload is what a grid without stored data has; the populator returns nil for
  it and nothing is logged.
\<close>

theorem empty_payload_counterexample:
  "AnkietSubtableGet unused_lib ''HORIZONTAL_STATIC_UNIQUE'' (sample_db '''') rejecting_unmarshal
     = (Rendered
          [\<lparr>Cells = [\<lparr>Value = ''01'', Name = ''Wartosc_Kod'', Required = 0, Editable = 0,
                      Blocked = False\<rparr>,
                     \<lparr>Value = '''', Name = ''Wartosc_Liczba'', Required = 1, Editable = 1,
                      Blocked = False\<rparr>],
            Title = ''Wheat'', Code = ''01'', Index = 0\<rparr>] '''',
        [])"
  by (simp add: AnkietSubtableGet_def sample_db_def PopulateCellsFromArray_def
        populate_warning_def static_rows_def static_cell_def code_column_def number_column_def)

section \<open>Serialization\<close>

lemma keys_object_set: "fst ` set (object_set d k v) = insert k (fst ` set d)"
  by (induction d k v rule: object_set.induct) (simp_all add: insert_commute)

lemma distinct_object_set: "distinct (map fst d) \<Longrightarrow> distinct (map fst (object_set d k v))"
  by (induction d k v rule: object_set.induct) (auto simp: keys_object_set)

lemma keys_put_number:
  "fst ` set (foldl put_number d is)
   = fst ` set d
     \<union> set (map in_name (filter (\<lambda>i. number_value_parse (in_value i) \<noteq> None) is))"
proof (induction "is" arbitrary: d)
  case Nil
  then show ?case by simp
next
  case (Cons i "is")
  have "fst ` set (put_number d i)
        = fst ` set d \<union> (if number_value_parse (in_value i) \<noteq> None then {in_name i} else {})"
    by (simp add: put_number_def keys_object_set split: option.splits)
  with Cons.IH [of "put_number d i"] show ?case by auto
qed

lemma keys_put_string:
  "fst ` set (foldl put_string d is)
   = fst ` set d \<union> set (map in_name (filter (\<lambda>i. trim (in_value i) \<noteq> '''') is))"
proof (induction "is" arbitrary: d)
  case Nil
  then show ?case by simp
next
  case (Cons i "is")
  have "fst ` set (put_string d i)
        = fst ` set d \<union> (if trim (in_value i) \<noteq> [] then {in_name i} else {})"
    by (simp add: put_string_def truthy_def keys_object_set)
  with Cons.IH [of "put_string d i"] show ?case by auto
qed

lemma keys_put_hidden:
  "fst ` set (foldl put_hidden d is)
   = fst ` set d \<union> set (map in_name (filter (\<lambda>i. in_value i \<noteq> '''') is))"
proof (induction "is" arbitrary: d)
  case Nil
  then show ?case by simp
next
  case (Cons i "is")
  have "fst ` set (put_hidden d i)
        = fst ` set d \<union> (if in_value i \<noteq> [] then {in_name i} else {})"
    by (simp add: put_hidden_def truthy_def keys_object_set)
  with Cons.IH [of "put_hidden d i"] show ?case by auto
qed

lemma distinct_put_number:
  "distinct (map fst d) \<Longrightarrow> distinct (map fst (foldl put_number d is))"
  by (induction "is" arbitrary: d) (auto simp: put_number_def distinct_object_set split: option.splits)

lemma distinct_put_string:
  "distinct (map fst d) \<Longrightarrow> distinct (map fst (foldl put_string d is))"
  by (induction "is" arbitrary: d) (auto simp: put_string_def distinct_object_set)

lemma distinct_put_hidden:
  "distinct (map fst d) \<Longrightarrow> distinct (map fst (foldl put_hidden d is))"
  by (induction "is" arbitrary: d) (auto simp: put_hidden_def distinct_object_set)

lemma keys_serialize_cell:
  "fst ` set (serialize_cell d c) = fst ` set d \<union> set (cell_present_names c)"
  unfolding serialize_cell_def cell_present_names_def
  by (simp only: keys_put_hidden keys_put_string keys_put_number set_append Un_assoc)

lemma distinct_serialize_cell:
  "distinct (map fst d) \<Longrightarrow> distinct (map fst (serialize_cell d c))"
  unfolding serialize_cell_def
  by (intro distinct_put_hidden distinct_put_string distinct_put_number)

lemma keys_serialize_cells:
  "fst ` set (foldl serialize_cell d row) = fst ` set d \<union> set (present_names row)"
  by (induction row arbitrary: d) (auto simp: present_names_def keys_serialize_cell)

lemma distinct_serialize_cells:
  "distinct (map fst d) \<Longrightarrow> distinct (map fst (foldl serialize_cell d row))"
  by (induction row arbitrary: d) (auto simp: distinct_serialize_cell)

lemma singleton_keys:
  assumes "distinct ks" and "set ks = {k}"
  shows "ks = [k]"
proof (cases ks)
  case Nil
  with assms show ?thesis by simp
next
  case (Cons a rest)
  with assms have "a = k" by auto
  moreover from Cons assms have "set rest \<subseteq> {k}" "a \<notin> set rest" by auto
  ultimately have "rest = []" by (cases rest) auto
  with Cons \<open>a = k\<close> show ?thesis by simp
qed

text \<open>
  Claim C7, as the code has it. \<open>table_serialize\<close> produces one object for each row,
  by ascending row index, that holds more than white space in a field that is not
  read-only, and none for any other row. The keys of the object of a row are the
  names of the fields of the row, read-only or not, whose value serializes: a number
  text that parses, a text that is not empty after trimming, a hidden enum or
  multi-exclusive value that is not empty; no key occurs twice. So blank fields are
  omitted, and a row in which one field alone has such a value gives an object with
  the key of that field only.
\<close>

theorem table_serialize_omission:
  "table_serialize state
     = map serialize_row (filter (\<lambda>row. \<not> row_is_blank row) (table_rows state))
   \<and> set (map fst (serialize_row row)) = set (present_names row)
   \<and> distinct (map fst (serialize_row row))
   \<and> (set (present_names row) = {k} \<longrightarrow> map fst (serialize_row row) = [k])"
proof -
  have keys: "set (map fst (serialize_row row)) = set (present_names row)"
    by (simp add: serialize_row_def keys_serialize_cells)
  have dist: "distinct (map fst (serialize_row row))"
    by (simp add: serialize_row_def distinct_serialize_cells)
  have "row_cells_has_data = (\<lambda>row. \<not> row_is_blank row)"
    by (rule ext) (simp add: row_cells_has_data_iff)
  then have "table_serialize state
          = map serialize_row (filter (\<lambda>row. \<not> row_is_blank row) (table_rows state))"
    by (simp add: table_serialize_def table_rows_def)
  with keys dist show ?thesis
    by (auto intro: singleton_keys)
qed

theorem table_serialize_omission_witness:
  "table_serialize code_and_number_state
     = [[(''X'', JS_number (Num (25 / 2))), (''T_Kod'', JS_string ''01'')]]
   \<and> table_serialize code_only_state = []
   \<and> map fst (serialize_row (grid_cells (element saved_state))) = [''X'']"
proof -
  have one: "set (present_names (grid_cells (element saved_state))) = {''X''}"
    by (simp add: present_names_def cell_present_names_def saved_state_def plain_state_def
          plain_cell_def plain_input_def enum_values_def multi_values_def number_value_parse_def
          parseFloat_def is_space_def is_digit_def is_nan_def nat_of_digits_def digit_value_def
          exponent_part_def nearest_double_5)
  have rows: "table_rows code_and_number_state = [grid_cells (element code_and_number_state)]"
             "table_rows code_only_state = [grid_cells (element code_only_state)]"
    by (simp_all add: table_rows_def code_and_number_state_def code_only_state_def
          plain_state_def plain_cell_def all_row_indices_get_def option_list_def row_cells_get_def)
  have blank: "\<not> row_is_blank (grid_cells (element code_and_number_state))"
              "row_is_blank (grid_cells (element code_only_state))"
    by (simp_all add: row_is_blank_def code_and_number_state_def code_only_state_def
          plain_state_def plain_cell_def plain_input_def data_fields_def whitespace_only_def
          is_space_def)
  have ser: "serialize_row (grid_cells (element code_and_number_state))
               = [(''X'', JS_number (Num (25 / 2))), (''T_Kod'', JS_string ''01'')]"
    by (simp add: code_and_number_state_def plain_state_def plain_cell_def plain_input_def
          serialize_row_def serialize_cell_def put_number_def put_string_def truthy_def
          enum_values_def multi_values_def trim_def is_space_def number_value_parse_def
          parseFloat_def is_digit_def is_nan_def nat_of_digits_def digit_value_def
          exponent_part_def nearest_double_25_2)
  from table_serialize_omission [of code_and_number_state]
       table_serialize_omission [of code_only_state]
       table_serialize_omission [of saved_state "grid_cells (element saved_state)" "''X''"]
       rows blank ser one
  show ?thesis by simp
qed

text \<open>
  The claim as stated promises an object for every row with exactly one field that
  is not empty. When that field is read-only, as the code cell of a row is, the row
  counts as not yet started and no entry is produced.
\<close>

theorem table_serialize_read_only_counterexample:
  "table_rows code_only_state = [grid_cells (element code_only_state)]
   \<and> map in_name (nonempty_fields (grid_cells (element code_only_state))) = [''T_Kod'']
   \<and> table_serialize code_only_state = []"
  by (simp add: table_rows_def code_only_state_def plain_state_def plain_cell_def
        plain_input_def all_row_indices_get_def option_list_def row_cells_get_def
        nonempty_fields_def row_fields_def enum_values_def multi_values_def
        whitespace_only_def is_space_def table_serialize_def trim_def)

section \<open>The row provisioner\<close>

lemma add_row_start_counter:
  "dynamic_table_add_row_start state code = (index, r, state')
   \<Longrightarrow> index = row_counter state \<and> row_counter state' = row_counter state + 1
       \<and> element state' = element state"
  by (auto simp: dynamic_table_add_row_start_def Let_def)

lemma add_row_finish_counter:
  "dynamic_table_add_row_finish state code outcome = (ok, state', ts)
   \<Longrightarrow> row_counter state' = row_counter state"
  by (auto simp: dynamic_table_add_row_finish_def Let_def split: fetch_outcome.splits if_splits)

lemma delete_row_counter: "row_counter (dynamic_table_delete_row state c) = row_counter state"
  by (simp add: dynamic_table_delete_row_def Let_def split: option.splits)

lemma selector_input_counter:
  "row_counter (dynamic_table_handle_selector_input state text) = row_counter state"
  by (simp add: dynamic_table_handle_selector_input_def Let_def)

lemma run_event_indices:
  "run_event state ev = (state', is)
   \<Longrightarrow> is = [row_counter state ..< row_counter state']
       \<and> row_counter state \<le> row_counter state'"
proof (cases ev)
  case (Add_called code)
  assume "run_event state ev = (state', is)"
  with Add_called show ?thesis
    by (auto simp: dynamic_table_add_row_start_def Let_def)
next
  case (Add_settled code outcome)
  assume "run_event state ev = (state', is)"
  with Add_settled show ?thesis
    by (auto split: prod.splits dest: add_row_finish_counter)
next
  case (Delete_clicked c)
  assume "run_event state ev = (state', is)"
  with Delete_clicked show ?thesis by (auto simp: delete_row_counter)
next
  case (Selector_typed typed)
  assume "run_event state ev = (state', is)"
  with Selector_typed show ?thesis by (auto simp: selector_input_counter)
qed

lemma upt_append: "(a::nat) \<le> b \<Longrightarrow> b \<le> c \<Longrightarrow> [a..<b] @ [b..<c] = [a..<c]"
  by (metis le_Suc_ex upt_add_eq_append)

lemma run_events_indices:
  "run_events state evs = (state', is)
   \<Longrightarrow> is = [row_counter state ..< row_counter state']
       \<and> row_counter state \<le> row_counter state'"
proof (induction evs arbitrary: state state' "is")
  case Nil
  then show ?case by simp
next
  case (Cons ev evs)
  obtain s1 i1 where e: "run_event state ev = (s1, i1)" by (cases "run_event state ev")
  obtain s2 i2 where r: "run_events s1 evs = (s2, i2)" by (cases "run_events s1 evs")
  from Cons.prems e r have eq: "state' = s2" "is = i1 @ i2" by simp_all
  from run_event_indices[OF e] Cons.IH[OF r] eq show ?case
    by (simp add: upt_append)
qed

text \<open>
  Claim C8. An add takes the current value of the counter as its row index and
  leaves the counter one higher, before the request is sent. Over any sequence of
  adds being called, adds settling (with success or failure), deletes and typing in
  the selector, the indices taken are the consecutive numbers from the initial counter
  on: strictly increasing, none used twice. When the fetch fails, the markup is the
  one before the add, an error toast is shown and the counter keeps the increment.
\<close>

theorem row_indices_never_reused:
  "(case dynamic_table_add_row_start state code of
      (index, r, state1) \<Rightarrow>
        index = row_counter state \<and> row_counter state1 = row_counter state + 1
        \<and> element state1 = element state
        \<and> (\<forall>outcome. \<not> fetch_ok outcome \<longrightarrow>
             (\<exists>f. dynamic_table_add_row_finish state1 code outcome
                    = (False, state1, [(Add_row_failed f, Toast_error)]))))
   \<and> (case run_events state evs of
        (state', is) \<Rightarrow>
          is = [row_counter state ..< row_counter state']
          \<and> sorted_wrt (<) is \<and> distinct is \<and> row_counter state \<le> row_counter state')"
proof -
  have "\<exists>f. dynamic_table_add_row_finish s code outcome = (False, s, [(Add_row_failed f, Toast_error)])"
    if "\<not> fetch_ok outcome" for s outcome
    using that
    by (auto simp: dynamic_table_add_row_finish_def fetch_ok_def split: fetch_outcome.splits)
  then have first: "case dynamic_table_add_row_start state code of
      (index, r, state1) \<Rightarrow>
        index = row_counter state \<and> row_counter state1 = row_counter state + 1
        \<and> element state1 = element state
        \<and> (\<forall>outcome. \<not> fetch_ok outcome \<longrightarrow>
             (\<exists>f. dynamic_table_add_row_finish state1 code outcome
                    = (False, state1, [(Add_row_failed f, Toast_error)])))"
    by (auto simp: dynamic_table_add_row_start_def Let_def)
  obtain s' js where r: "run_events state evs = (s', js)" by (cases "run_events state evs")
  from run_events_indices[OF r] have "js = [row_counter state ..< row_counter s']"
    "row_counter state \<le> row_counter s'" by simp_all
  then have "js = [row_counter state ..< row_counter s'] \<and> sorted_wrt (<) js \<and> distinct js
     \<and> row_counter state \<le> row_counter s'"
    by simp
  with r first show ?thesis by simp
qed

theorem row_indices_never_reused_witness:
  "snd (run_events unique_state
          [Add_called ''A'', Add_settled ''A'' (Response 500 []), Add_called ''A'',
           Add_settled ''A'' (Response 200 (row_fragment ''A'' 1)),
           Delete_clicked (hd (row_fragment ''A'' 1)), Add_called ''A''])
     = [0, 1, 2]
   \<and> \<not> fetch_ok (Response 500 ([] :: cell list))
   \<and> fst (dynamic_table_add_row_finish
             (snd (snd (dynamic_table_add_row_start unique_state ''A''))) ''A'' (Response 500 []))
       = False
   \<and> fst (snd (dynamic_table_add_row_finish
                  (snd (snd (dynamic_table_add_row_start unique_state ''A''))) ''A''
                  (Response 500 [])))
       = unique_state\<lparr>row_counter := 1\<rparr>"
proof -
  let ?evs = "[Add_called ''A'', Add_settled ''A'' (Response 500 []), Add_called ''A'',
           Add_settled ''A'' (Response 200 (row_fragment ''A'' 1)),
           Delete_clicked (hd (row_fragment ''A'' 1)), Add_called ''A'']"
  let ?s1 = "snd (snd (dynamic_table_add_row_start unique_state ''A''))"
  obtain s' js where r: "run_events unique_state ?evs = (s', js)"
    by (cases "run_events unique_state ?evs")
  have c: "row_counter (fst (run_events unique_state ?evs)) = 3"
    by (simp add: dynamic_table_add_row_start_def dynamic_table_add_row_finish_def
          dynamic_table_delete_row_def response_ok_def unique_state_def row_fragment_def
          plain_cell_def truthy_def Let_def)
  note inst = row_indices_never_reused [of unique_state "''A''" ?evs]
  from inst r have "js = [row_counter unique_state ..< row_counter s']" by simp
  with r c have "snd (run_events unique_state ?evs) = [0 ..< 3]"
    by (simp add: unique_state_def)
  moreover have "[0 ..< 3] = [0, 1, 2::nat]" by (simp add: upt_rec)
  moreover have nf: "\<not> fetch_ok (Response 500 ([] :: cell list))"
    by (simp add: fetch_ok_def response_ok_def)
  moreover from inst have
    "\<forall>outcome. \<not> fetch_ok outcome \<longrightarrow>
       (\<exists>f. dynamic_table_add_row_finish ?s1 ''A'' outcome
              = (False, ?s1, [(Add_row_failed f, Toast_error)]))"
    by (simp add: split_beta)
  with nf obtain f where
    "dynamic_table_add_row_finish ?s1 ''A'' (Response 500 [])
       = (False, ?s1, [(Add_row_failed f, Toast_error)])"
    by blast
  moreover have "?s1 = unique_state\<lparr>row_counter := 1\<rparr>"
    by (simp add: dynamic_table_add_row_start_def unique_state_def Let_def)
  ultimately show ?thesis by simp
qed

section \<open>One row per code\<close>

text \<open>
  In unique mode an option that carries the class \<^verbatim>\<open>hidden\<close> is skipped by the
  filter, whatever the text; a settled add hides the option of its code, and a delete
  shows the option of the code of the deleted row again.
\<close>

lemma hidden_option_stays_hidden: "opt_hidden el \<Longrightarrow> filter_option True query el = el"
  by (simp add: filter_option_def)

lemma set_first_hidden_hides:
  "distinct (map opt_value opts)
   \<Longrightarrow> list_all (\<lambda>el. opt_value el \<noteq> Some code \<or> opt_hidden el)
         (set_first_hidden (\<lambda>opt. opt_value opt = Some code) True opts)"
proof (induction opts)
  case Nil
  then show ?case by simp
next
  case (Cons el opts)
  show ?case
  proof (cases "opt_value el = Some code")
    case True
    with Cons.prems have "\<forall>x \<in> set opts. opt_value x \<noteq> Some code" by (auto simp: image_iff)
    with True show ?thesis by (simp add: list_all_iff)
  next
    case False
    with Cons show ?thesis by simp
  qed
qed

lemma set_first_hidden_shows:
  "distinct (map opt_row_code opts)
   \<Longrightarrow> list_all (\<lambda>el. opt_row_code el \<noteq> Some code \<or> \<not> opt_hidden el)
         (set_first_hidden (\<lambda>opt. opt_row_code opt = Some code) False opts)"
proof (induction opts)
  case Nil
  then show ?case by simp
next
  case (Cons el opts)
  show ?case
  proof (cases "opt_row_code el = Some code")
    case True
    with Cons.prems have "\<forall>x \<in> set opts. opt_row_code x \<noteq> Some code" by (auto simp: image_iff)
    with True show ?thesis by (simp add: list_all_iff)
  next
    case False
    with Cons show ?thesis by simp
  qed
qed

lemma settled_add_hides_code:
  assumes "is_unique state"
    and "row_selector (element state) = Some rs"
    and "distinct (map opt_value (selector_options rs))"
    and "fetch_ok outcome"
    and "dynamic_table_add_row_finish state code outcome = (ok, state', ts)"
  shows "ok \<and> list_all (\<lambda>el. opt_value el \<noteq> Some code) (visible_options state')"
proof -
  from assms(4) obtain status html where o: "outcome = Response status html" "response_ok status"
    by (cases outcome) (auto simp: fetch_ok_def)
  let ?opts = "set_first_hidden (\<lambda>opt. opt_value opt = Some code) True (selector_options rs)"
  from assms(1,2,5) o have "ok"
    and "visible_options state' = filter (\<lambda>el. \<not> opt_hidden el) ?opts"
    by (auto simp: dynamic_table_add_row_finish_def visible_options_def Let_def)
  moreover from set_first_hidden_hides [OF assms(3), of code]
  have "list_all (\<lambda>el. opt_value el \<noteq> Some code) (filter (\<lambda>el. \<not> opt_hidden el) ?opts)"
    by (auto simp: list_all_iff)
  ultimately show ?thesis by simp
qed

lemma typing_keeps_code_hidden:
  assumes "is_unique state"
    and "list_all (\<lambda>el. opt_value el \<noteq> Some code) (visible_options state)"
  shows "list_all (\<lambda>el. opt_value el \<noteq> Some code)
           (visible_options (dynamic_table_handle_selector_input state typed))"
proof (cases "row_selector (element state)")
  case None
  then show ?thesis
    by (simp add: visible_options_def dynamic_table_handle_selector_input_def Let_def)
next
  case (Some rs)
  have v: "opt_value (filter_option True q el) = opt_value el" for q el
    by (simp add: filter_option_def)
  have h: "\<not> opt_hidden (filter_option True q el) \<Longrightarrow> \<not> opt_hidden el" for q el
    by (auto simp: filter_option_def split: if_splits)
  from Some assms(2) have a: "\<forall>el \<in> set (selector_options rs). \<not> opt_hidden el \<longrightarrow> opt_value el \<noteq> Some code"
    by (auto simp: visible_options_def list_all_iff)
  from Some assms(1) have "visible_options (dynamic_table_handle_selector_input state typed)
        = filter (\<lambda>el. \<not> opt_hidden el)
            (map (filter_option True (to_lower typed)) (selector_options rs))"
    by (simp add: visible_options_def dynamic_table_handle_selector_input_def Let_def)
  with a show ?thesis
    using v h by (auto simp: list_all_iff)
qed

lemma delete_shows_code:
  assumes "is_unique state"
    and "row_selector (element state) = Some rs"
    and "distinct (map opt_row_code (selector_options rs))"
    and "row_index c = Some i" and "row_code c = Some code" and "code \<noteq> ''''"
  shows "case row_selector (element (dynamic_table_delete_row state c)) of
           None \<Rightarrow> False
         | Some rs' \<Rightarrow>
             list_all (\<lambda>el. opt_row_code el \<noteq> Some code \<or> \<not> opt_hidden el) (selector_options rs')"
  using assms set_first_hidden_shows [OF assms(3), of code]
  by (simp add: dynamic_table_delete_row_def truthy_def Let_def)

text \<open>
  Claim C9 at a run in which the same option is confirmed twice before the first
  fetch settles. The option is hidden only when an add settles, so the second
  \<^verbatim>\<open>Enter\<close> still finds it: both adds are called, both settle, and the grid holds
  two rows of the code \<^verbatim>\<open>A\<close>, with the row indices 0 and 1.
\<close>

theorem unique_mode_double_add:
  "selector_enter unique_state = Some ''A''
   \<and> selector_enter (fst (run_events unique_state [Add_called ''A''])) = Some ''A''
   \<and> map (\<lambda>c. (row_index c, row_code c))
        (grid_cells (element (fst (run_events unique_state
           [Add_called ''A'', Add_called ''A'',
            Add_settled ''A'' (Response 200 (row_fragment ''A'' 0)),
            Add_settled ''A'' (Response 200 (row_fragment ''A'' 1))]))))
      = [(Some 0, Some ''A''), (Some 1, Some ''A'')]"
  by (simp add: selector_enter_def visible_options_def unique_state_def truthy_def
        dynamic_table_add_row_start_def dynamic_table_add_row_finish_def response_ok_def
        row_fragment_def plain_cell_def Let_def)

section \<open>The dash-grouped digit mask\<close>

lemma string_format_loop_from:
  "string_format_loop digits i formatted = formatted @ format_from i (drop i (take 8 digits))"
proof (induction digits i formatted rule: string_format_loop.induct)
  case (1 digits i formatted)
  define ys where "ys = take 8 digits"
  have len: "i < length ys \<longleftrightarrow> i < length digits \<and> i < 8"
    by (auto simp: ys_def)
  show ?case
  proof (cases "i < length digits \<and> i < 8")
    case True
    then have "ys ! i = digits ! i" by (simp add: ys_def)
    moreover from True len have "drop i ys = ys ! i # drop (Suc i) ys"
      by (simp add: Cons_nth_drop_Suc)
    ultimately have d: "drop i ys = digits ! i # drop (i + 1) ys"
      by simp
    show ?thesis
      using True 1 d unfolding ys_def[symmetric] by (subst string_format_loop.simps) simp
  next
    case False
    with len have "drop i ys = []" by simp
    with False show ?thesis unfolding ys_def[symmetric] by (subst string_format_loop.simps) simp
  qed
qed

lemma format_from_even:
  "even i \<Longrightarrow> format_from i xs = (if 0 < i \<and> xs \<noteq> [] then ''-'' else '''') @ dash_pairs xs"
proof (induction xs arbitrary: i rule: dash_pairs.induct)
  case (4 a b c rest)
  have "even (i + 1 + 1)" using 4(2) by simp
  from 4(1)[OF this] show ?case using 4(2) by (simp add: mod_Suc)
qed (auto simp: mod_Suc)

lemma string_format_pattern_shape:
  "string_format_pattern s = dash_pairs (take 8 (filter is_digit s))"
  unfolding string_format_pattern_def string_format_loop_from
  by (simp only: format_from_even[of 0] drop_0 even_zero) simp

lemma filter_digit_dash_pairs: "filter is_digit (dash_pairs ds) = filter is_digit ds"
  by (induction ds rule: dash_pairs.induct) (simp_all add: is_digit_def)

lemma filter_digit_take:
  "filter is_digit (take n (filter is_digit s)) = take n (filter is_digit s)"
  by (rule filter_True) (auto dest: in_set_takeD)

text \<open>
  Claim C10. For every input string \<open>s\<close>, \<open>string_format_pattern s\<close> is the digits of
  \<open>s\<close>, cut off after the eighth, grouped in pairs with a single dash between groups
  (a last group of one digit when their number is odd); so it holds at most 8 digits,
  its digits are the first 8 digits of \<open>s\<close>, and formatting a formatted string again
  changes nothing.
\<close>

theorem string_format_pattern_grouped:
  "string_format_pattern s = dash_pairs (take 8 (filter is_digit s))
   \<and> length (filter is_digit (string_format_pattern s)) \<le> 8
   \<and> filter is_digit (string_format_pattern s) = take 8 (filter is_digit s)
   \<and> string_format_pattern (string_format_pattern s) = string_format_pattern s"
  unfolding string_format_pattern_shape filter_digit_dash_pairs filter_digit_take
  by simp

theorem string_format_pattern_grouped_witness:
  "string_format_pattern ''12a345678901'' = ''12-34-56-78''
   \<and> string_format_pattern (string_format_pattern ''12a345678901'') = ''12-34-56-78''"
proof -
  have "string_format_pattern ''12a345678901'' = ''12-34-56-78''"
    using string_format_pattern_grouped [of "''12a345678901''"]
    by (simp add: is_digit_def)
  moreover have "string_format_pattern (string_format_pattern ''12a345678901'')
      = string_format_pattern ''12a345678901''"
    using string_format_pattern_grouped [of "''12a345678901''"] by blast
  ultimately show ?thesis by simp
qed

end
